theory Spec2Isabelle
  imports Main "HOL-Library.Word" "HOL-Library.Multiset"
begin

unbundle bit_operations_syntax

section \<open>The concurrent data downloader: configuration\<close>

text \<open>
  A shallow embedding of \<^verbatim>\<open>src/common/concurrent_data_downloader.py\<close>.
  Strings are \<^typ>\<open>string\<close>. The module passes points of the time line around as time
  strings with millisecond precision (\<^verbatim>\<open>"%Y-%m-%dT%H:%M:%S.%f"\<close> cut by \<^verbatim>\<open>[:-3]\<close>) and as
  \<^verbatim>\<open>datetime\<close> objects parsed from them; both are modelled by the number of milliseconds
  since 1970-01-01T00:00, an \<^typ>\<open>int\<close>. Formatting a \<^verbatim>\<open>datetime\<close> with a pattern that fixes
  the minutes (or the hours) to zero rounds the number down to the hour (the day).
  An exception the code raises is a value \<open>Inl e\<close>.
\<close>

datatype py_exception =
    ValueError string
  | IndexError string
  | OverflowError string
  | UnboundLocalError string
  | TypeError string
  | BackendError string

datatype VerbosityLevel = BASIC | DETAILED | EXTRA_LOGGING | FULL_LOGGING

fun verbosity_value :: "VerbosityLevel \<Rightarrow> int" where
  "verbosity_value BASIC = 0"
| "verbosity_value DETAILED = 1"
| "verbosity_value EXTRA_LOGGING = 2"
| "verbosity_value FULL_LOGGING = 4"

text \<open>
  What a caller may pass as \<^verbatim>\<open>gte\<close> or \<^verbatim>\<open>lte\<close>: \<^verbatim>\<open>None\<close>, a \<^verbatim>\<open>datetime\<close> (its UTC
  instant in microseconds, the resolution of \<^verbatim>\<open>datetime\<close>), or an object of another
  type. The other arguments are checked by \<^verbatim>\<open>validate_type\<close>, which raises for exactly the
  values their HOL types exclude.
\<close>

datatype py_time_arg = PyNone | PyDatetime int | PyOther

definition hour_ms :: int where
  "hour_ms = 3600000"

definition day_ms :: int where
  "day_ms = 24 * hour_ms"

definition strftime_ms :: "int \<Rightarrow> int" where
  \<comment> \<open>\<^verbatim>\<open>strftime("%Y-%m-%dT%H:%M:%S.%f")[:-3]\<close> of a datetime given in microseconds\<close>
  "strftime_ms us = us div 1000"

definition floor_hour :: "int \<Rightarrow> int" where
  \<comment> \<open>\<^verbatim>\<open>strftime("%Y-%m-%dT%H:00:00.000")\<close>\<close>
  "floor_hour t = (t div hour_ms) * hour_ms"

definition floor_day :: "int \<Rightarrow> int" where
  \<comment> \<open>\<^verbatim>\<open>strftime("%Y-%m-%dT00:00:00.000")\<close>\<close>
  "floor_day t = (t div day_ms) * day_ms"

definition set_gte_lte :: "py_time_arg \<Rightarrow> py_time_arg \<Rightarrow> py_exception + (int option \<times> int option)" where
  "set_gte_lte gte lte =
     (if gte = PyNone \<or> lte = PyNone then Inr (None, None)
      else case gte of
        PyDatetime g \<Rightarrow>
          (case lte of
             PyDatetime l \<Rightarrow> Inr (Some (strftime_ms g), Some (strftime_ms l))
           | _ \<Rightarrow> Inl (ValueError ''Parameter 'lte' must be a datetime object.''))
      | _ \<Rightarrow> Inl (ValueError ''Parameter 'gte' must be a datetime object.''))"

record QueryConfigurator =
  indexes :: "string list"
  fields_str :: string
  name_of_type :: string
  event_type :: string
  extra_condition :: string
  output_filename :: string
  verbose :: VerbosityLevel
  ascending :: bool
  temp_files :: bool
  return_df :: bool
  compress_df :: bool
  time_step :: int
  gte :: "int option"
  lte :: "int option"
  date_range :: "string option"
  ignore_exceptions :: bool
  isin_container :: bool

text \<open>The arguments of \<^verbatim>\<open>QueryConfigurator.__init__\<close>, and the defaults of its signature.\<close>

record init_args =
  arg_indexes :: "string list"
  arg_fields :: string
  arg_name_of_type :: string
  arg_event_type :: string
  arg_extra_condition :: string
  arg_output_filename :: "string option"
  arg_verbose :: VerbosityLevel
  arg_ascending :: bool
  arg_temp_files :: bool
  arg_return_df :: bool
  arg_compress_df :: bool
  arg_time_step :: int
  arg_gte :: py_time_arg
  arg_lte :: py_time_arg
  arg_date_range :: "string option"
  arg_ignore_exceptions :: bool
  arg_isin_container :: bool

definition default_args :: "string list \<Rightarrow> string \<Rightarrow> string \<Rightarrow> string \<Rightarrow> init_args" where
  "default_args ixs fs nt et =
     \<lparr> arg_indexes = ixs, arg_fields = fs, arg_name_of_type = nt, arg_event_type = et,
       arg_extra_condition = [], arg_output_filename = None, arg_verbose = DETAILED,
       arg_ascending = True, arg_temp_files = False, arg_return_df = False,
       arg_compress_df = False, arg_time_step = 4, arg_gte = PyNone, arg_lte = PyNone,
       arg_date_range = None, arg_ignore_exceptions = False, arg_isin_container = False \<rparr>"

subsection \<open>\<^verbatim>\<open>validate_fields\<close>\<close>

text \<open>
  The pattern is \<^verbatim>\<open>^(`[\w.$@]+`|[\w.$@]+)(, (`[\w.$@]+`|[\w.$@]+))*$\<close>, matched with
  \<^verbatim>\<open>re.match\<close>. No character of an item is a comma, a blank or a newline, so a string
  matches exactly when its pieces between the separators \<^verbatim>\<open>", "\<close> are items; the final
  \<^verbatim>\<open>$\<close> also matches before one trailing newline. \<^verbatim>\<open>\w\<close> is read on ASCII: letters,
  digits and the underscore.
\<close>

definition word_char :: "char \<Rightarrow> bool" where
  "word_char c =
     (let n = (of_char c :: nat)
      in (48 \<le> n \<and> n \<le> 57) \<or> (65 \<le> n \<and> n \<le> 90) \<or> (97 \<le> n \<and> n \<le> 122) \<or> n = 95)"

definition ident_char :: "char \<Rightarrow> bool" where
  "ident_char c = (word_char c \<or> c = CHR ''.'' \<or> c = CHR ''$'' \<or> c = CHR ''@'')"

definition bare_item :: "string \<Rightarrow> bool" where
  "bare_item s = (s \<noteq> [] \<and> list_all ident_char s)"

definition field_item :: "string \<Rightarrow> bool" where
  "field_item s =
     ((s \<noteq> [] \<and> hd s = CHR 0x60 \<and> 2 \<le> length s \<and> last s = CHR 0x60
         \<and> bare_item (butlast (tl s)))
      \<or> bare_item s)"

fun split_comma_blank :: "string \<Rightarrow> string \<Rightarrow> string list" where
  "split_comma_blank cur (CHR '','' # CHR '' '' # cs) = rev cur # split_comma_blank [] cs"
| "split_comma_blank cur (c # cs) = split_comma_blank (c # cur) cs"
| "split_comma_blank cur [] = [rev cur]"

definition strip_final_newline :: "string \<Rightarrow> string" where
  "strip_final_newline s = (if s \<noteq> [] \<and> last s = CHR 0x0A then butlast s else s)"

definition validate_fields :: "string \<Rightarrow> py_exception + bool" where
  "validate_fields fs =
     (if list_all field_item (split_comma_blank [] (strip_final_newline fs)) then Inr True
      else Inl (ValueError (''Invalid format: '' @ fs)))"

subsection \<open>\<^verbatim>\<open>QueryConfigurator.__init__\<close>\<close>

text \<open>
  The constructor checks the fields string, stores its arguments, converts the time bounds
  and clamps the window size, in this order. The logger it attaches (a log file, or the
  standard output at \<^verbatim>\<open>FULL_LOGGING\<close>) is an effect outside the model.
\<close>

definition QueryConfigurator_init :: "init_args \<Rightarrow> py_exception + QueryConfigurator" where
  "QueryConfigurator_init a =
     (case validate_fields (arg_fields a) of
        Inl e \<Rightarrow> Inl e
      | Inr _ \<Rightarrow>
          (case set_gte_lte (arg_gte a) (arg_lte a) of
             Inl e \<Rightarrow> Inl e
           | Inr (g, l) \<Rightarrow>
               Inr \<lparr> indexes = arg_indexes a,
                     fields_str = arg_fields a,
                     name_of_type = arg_name_of_type a,
                     event_type = arg_event_type a,
                     extra_condition = arg_extra_condition a,
                     output_filename =
                       (case arg_output_filename a of
                          None \<Rightarrow> arg_event_type a @ ''_out.csv''
                        | Some f \<Rightarrow> f),
                     verbose = arg_verbose a,
                     ascending = arg_ascending a,
                     temp_files = (arg_temp_files a \<and> \<not> arg_isin_container a),
                     return_df = arg_return_df a,
                     compress_df = arg_compress_df a,
                     time_step =
                       (if arg_time_step a > 12 \<or> arg_time_step a < 1 then 4
                        else arg_time_step a),
                     gte = g,
                     lte = l,
                     date_range = arg_date_range a,
                     ignore_exceptions = arg_ignore_exceptions a,
                     isin_container = arg_isin_container a \<rparr>))"

section \<open>The cache directory\<close>

subsection \<open>\<^verbatim>\<open>hashlib.md5\<close>\<close>

text \<open>
  The MD5 digest of RFC 1321 on a list of bytes, and its lower-case hexadecimal form
  (\<^verbatim>\<open>hexdigest\<close>). A \<^typ>\<open>string\<close> is the list of the bytes of the encoded text.
\<close>

definition md5_shifts :: "nat list" where
  "md5_shifts =
     [7, 12, 17, 22, 7, 12, 17, 22, 7, 12, 17, 22, 7, 12, 17, 22,
      5, 9, 14, 20, 5, 9, 14, 20, 5, 9, 14, 20, 5, 9, 14, 20,
      4, 11, 16, 23, 4, 11, 16, 23, 4, 11, 16, 23, 4, 11, 16, 23,
      6, 10, 15, 21, 6, 10, 15, 21, 6, 10, 15, 21, 6, 10, 15, 21]"

definition md5_sines :: "32 word list" where
  "md5_sines =
     [0xd76aa478, 0xe8c7b756, 0x242070db, 0xc1bdceee, 0xf57c0faf, 0x4787c62a, 0xa8304613,
      0xfd469501, 0x698098d8, 0x8b44f7af, 0xffff5bb1, 0x895cd7be, 0x6b901122, 0xfd987193,
      0xa679438e, 0x49b40821, 0xf61e2562, 0xc040b340, 0x265e5a51, 0xe9b6c7aa, 0xd62f105d,
      0x02441453, 0xd8a1e681, 0xe7d3fbc8, 0x21e1cde6, 0xc33707d6, 0xf4d50d87, 0x455a14ed,
      0xa9e3e905, 0xfcefa3f8, 0x676f02d9, 0x8d2a4c8a, 0xfffa3942, 0x8771f681, 0x6d9d6122,
      0xfde5380c, 0xa4beea44, 0x4bdecfa9, 0xf6bb4b60, 0xbebfbc70, 0x289b7ec6, 0xeaa127fa,
      0xd4ef3085, 0x04881d05, 0xd9d4d039, 0xe6db99e5, 0x1fa27cf8, 0xc4ac5665, 0xf4292244,
      0x432aff97, 0xab9423a7, 0xfc93a039, 0x655b59c3, 0x8f0ccc92, 0xffeff47d, 0x85845dd1,
      0x6fa87e4f, 0xfe2ce6e0, 0xa3014314, 0x4e0811a1, 0xf7537e82, 0xbd3af235, 0x2ad7d2bb,
      0xeb86d391]"

fun le_bytes :: "nat \<Rightarrow> nat \<Rightarrow> nat list" where
  "le_bytes 0 n = []"
| "le_bytes (Suc k) n = (n mod 256) # le_bytes k (n div 256)"

definition md5_padding :: "nat list \<Rightarrow> nat list" where
  "md5_padding bs =
     bs @ [128] @ replicate ((119 - length bs mod 64) mod 64) 0 @ le_bytes 8 (8 * length bs)"

definition le_word :: "nat list \<Rightarrow> 32 word" where
  "le_word bs = foldr (\<lambda>b w. word_of_nat b + 256 * w) bs 0"

definition word_bytes :: "32 word \<Rightarrow> nat list" where
  "word_bytes w = map (\<lambda>k. unat (drop_bit (8 * k) w AND 255)) [0..<4]"

definition md5_words :: "nat list \<Rightarrow> 32 word list" where
  "md5_words block = map (\<lambda>i. le_word (take 4 (drop (4 * i) block))) [0..<16]"

definition md5_blocks :: "nat list \<Rightarrow> nat list list" where
  "md5_blocks bs = map (\<lambda>i. take 64 (drop (64 * i) bs)) [0..<length bs div 64]"

type_synonym md5_state = "32 word \<times> 32 word \<times> 32 word \<times> 32 word"

fun md5_step :: "32 word list \<Rightarrow> md5_state \<Rightarrow> nat \<Rightarrow> md5_state" where
  "md5_step M (A, B, C, D) i =
     (let F = (if i < 16 then (B AND C) OR (NOT B AND D)
               else if i < 32 then (D AND B) OR (NOT D AND C)
               else if i < 48 then B XOR C XOR D
               else C XOR (B OR NOT D));
          g = (if i < 16 then i
               else if i < 32 then (5 * i + 1) mod 16
               else if i < 48 then (3 * i + 5) mod 16
               else (7 * i) mod 16)
      in (D, B + word_rotl (md5_shifts ! i) (F + A + md5_sines ! i + M ! g), B, C))"

fun md5_block :: "md5_state \<Rightarrow> nat list \<Rightarrow> md5_state" where
  "md5_block (a0, b0, c0, d0) block =
     (case foldl (md5_step (md5_words block)) (a0, b0, c0, d0) [0..<64] of
        (A, B, C, D) \<Rightarrow> (a0 + A, b0 + B, c0 + C, d0 + D))"

definition md5_digest :: "nat list \<Rightarrow> nat list" where
  "md5_digest bs =
     (case foldl md5_block (0x67452301, 0xefcdab89, 0x98badcfe, 0x10325476)
             (md5_blocks (md5_padding bs)) of
        (a, b, c, d) \<Rightarrow> concat (map word_bytes [a, b, c, d]))"

definition hex_byte :: "nat \<Rightarrow> string" where
  "hex_byte n = [''0123456789abcdef'' ! (n div 16), ''0123456789abcdef'' ! (n mod 16)]"

definition md5_hexdigest :: "string \<Rightarrow> string" where
  "md5_hexdigest s = concat (map hex_byte (md5_digest (map of_char s)))"

subsection \<open>\<^verbatim>\<open>generate_unique_dir_name\<close>\<close>

definition digit_char :: "nat \<Rightarrow> char" where
  "digit_char n = ''0123456789'' ! n"

function str_nat :: "nat \<Rightarrow> string" where
  "str_nat n = (if n < 10 then [digit_char n] else str_nat (n div 10) @ [digit_char (n mod 10)])"
  by pat_completeness auto
termination
  by (relation "measure (\<lambda>n. n)") auto

declare str_nat.simps [simp del]

definition str_int :: "int \<Rightarrow> string" where
  \<comment> \<open>\<^verbatim>\<open>str\<close> of an integer\<close>
  "str_int i = (if i < 0 then CHR ''-'' # str_nat (nat (- i)) else str_nat (nat i))"

definition base_string :: "QueryConfigurator \<Rightarrow> string" where
  "base_string cfg =
     fields_str cfg @ name_of_type cfg @ event_type cfg @ extra_condition cfg
       @ str_int (time_step cfg)"

definition generate_unique_dir_name :: "QueryConfigurator \<Rightarrow> string" where
  "generate_unique_dir_name cfg = md5_hexdigest (base_string cfg)"

section \<open>The query partitioner\<close>

text \<open>
  A SubQuery is the pair \<^verbatim>\<open>[query, temp_filename]\<close>. The query text is
  \<^verbatim>\<open>SELECT fields FROM `index` WHERE name_of_type='type' extra_condition hour_condition\<close>;
  all of it but the index and the hour condition is the same for every SubQuery of a
  configuration, so the model keeps the index, the time field and the hour condition in
  structured form, and two marks for the rewritings applied to the text
  (\<^verbatim>\<open>change_time_format\<close>, and the type filter cut out for an \<^verbatim>\<open>accounts\<close> index).

  The hour condition comes from \<^verbatim>\<open>HOUR_CONDITION_TEMPLATE\<close>:
  \<^item> \<open>Regular s e eq\<close> is \<^verbatim>\<open>AND `f` >= 's' AND `f` < 'e'\<close>, with \<^verbatim>\<open><\<close> replaced by \<^verbatim>\<open><=\<close>
    when \<open>eq\<close> holds;
  \<^item> \<open>Extra s e r\<close> is \<^verbatim>\<open>AND (`f` < 's' OR `f` >= 'e')\<close>, followed when \<open>r = Some (g, l)\<close> by
    \<^verbatim>\<open>AND `f` >= 'g' AND `f` < 'l'\<close>;
  \<^item> \<open>NoClause\<close> is the empty condition.
  \<open>clause_holds c t\<close> says that a row whose time field is the instant \<open>t\<close> satisfies \<open>c\<close>.
\<close>

datatype time_clause =
    NoClause
  | Regular int int bool
  | Extra int int "(int \<times> int) option"

fun clause_holds :: "time_clause \<Rightarrow> int \<Rightarrow> bool" where
  "clause_holds NoClause t = True"
| "clause_holds (Regular s e eq) t = (s \<le> t \<and> (if eq then t \<le> e else t < e))"
| "clause_holds (Extra s e r) t =
     ((t < s \<or> e \<le> t) \<and> (case r of None \<Rightarrow> True | Some (g, l) \<Rightarrow> g \<le> t \<and> t < l))"

text \<open>
  The cache file of a SubQuery is \<^verbatim>\<open>nested_dir/ind_full.pkl\<close>, \<^verbatim>\<open>nested_dir/ind_extra.pkl\<close> or
  \<^verbatim>\<open>nested_dir/ind_START_END.pkl\<close>, where START and END are the hour strings of the window
  (before it is cut to the global range) without \<^verbatim>\<open>:00:00.000\<close>.
\<close>

datatype cache_name = FullFile | ExtraFile | WindowFile int int

record cache_file =
  cf_dir :: string
  cf_index :: string
  cf_name :: cache_name

record SubQuery =
  sq_index :: string
  sq_timefield :: string
  sq_clause :: time_clause
  sq_type_times :: bool
  sq_accounts :: bool
  sq_file :: cache_file

definition has_range :: "QueryConfigurator \<Rightarrow> bool" where
  \<comment> \<open>\<^verbatim>\<open>configurator.gte and configurator.lte\<close>: a time string is never empty\<close>
  "has_range cfg = (gte cfg \<noteq> None \<and> lte cfg \<noteq> None)"

definition intersect_time_ranges :: "int \<Rightarrow> int \<Rightarrow> int \<Rightarrow> int \<Rightarrow> (int \<times> int) option \<times> bool" where
  "intersect_time_ranges start1 end1 start2 end2 =
     (let max_start = max start1 start2;
          min_end = (if end1 < end2 then end1 else end2);
          flag = (\<not> end1 < end2)
      in (if max_start \<le> min_end then Some (max_start, min_end) else None, flag))"

definition get_time_strings :: "int \<Rightarrow> QueryConfigurator \<Rightarrow> int \<Rightarrow> int \<Rightarrow> int \<times> int" where
  "get_time_strings hour cfg end_time start_time =
     (floor_hour start_time,
      if hour + time_step cfg > 24 then floor_day end_time else floor_hour end_time)"

definition append_query ::
  "QueryConfigurator \<Rightarrow> string \<Rightarrow> string \<Rightarrow> SubQuery list \<Rightarrow> int \<Rightarrow> int \<Rightarrow> int \<Rightarrow> int \<Rightarrow>
   string \<Rightarrow> bool \<Rightarrow> SubQuery list" where
  "append_query cfg ind nested_dir result_queries start_time_str end_time_str
       start_date end_date default_timeield is_extra_query =
     (if is_extra_query then
        result_queries @
          [\<lparr> sq_index = ind, sq_timefield = default_timeield,
             sq_clause = Extra (floor_day start_date) (floor_day end_date)
               (if has_range cfg then Some (the (gte cfg), the (lte cfg)) else None),
             sq_type_times = (name_of_type cfg = ''Type''), sq_accounts = False,
             sq_file = \<lparr> cf_dir = nested_dir, cf_index = ind, cf_name = ExtraFile \<rparr> \<rparr>]
      else if has_range cfg then
        (case intersect_time_ranges start_time_str end_time_str (the (gte cfg)) (the (lte cfg)) of
           (None, _) \<Rightarrow> result_queries
         | (Some (s, e), equality) \<Rightarrow>
             result_queries @
               [\<lparr> sq_index = ind, sq_timefield = default_timeield,
                  sq_clause = Regular s e equality,
                  sq_type_times = (name_of_type cfg = ''Type''), sq_accounts = False,
                  sq_file = \<lparr> cf_dir = nested_dir, cf_index = ind,
                              cf_name = WindowFile start_time_str end_time_str \<rparr> \<rparr>])
      else
        result_queries @
          [\<lparr> sq_index = ind, sq_timefield = default_timeield,
             sq_clause = Regular start_time_str end_time_str False,
             sq_type_times = (name_of_type cfg = ''Type''), sq_accounts = False,
             sq_file = \<lparr> cf_dir = nested_dir, cf_index = ind,
                         cf_name = WindowFile start_time_str end_time_str \<rparr> \<rparr>])"

text \<open>
  The loop \<^verbatim>\<open>for hour in range(0, 25, configurator.time_step)\<close> of
  \<^verbatim>\<open>create_queries_for_date_range\<close>, for a positive step, from the value \<open>hour\<close> on:
  \<^verbatim>\<open>continue\<close> when the two time strings are equal, \<^verbatim>\<open>break\<close> after a window that passes 24:00.
\<close>

function hours_loop ::
  "QueryConfigurator \<Rightarrow> string \<Rightarrow> string \<Rightarrow> int \<Rightarrow> int \<Rightarrow> string \<Rightarrow> int \<Rightarrow> int \<Rightarrow>
   SubQuery list \<Rightarrow> SubQuery list" where
  "hours_loop cfg ind nested_dir start_date end_date default_timeield current_day hour
       result_queries =
     (if hour < 25 \<and> 0 < time_step cfg then
        (let start_time = current_day + hour * hour_ms;
             end_time = start_time + time_step cfg * hour_ms;
             strs = get_time_strings hour cfg end_time start_time;
             start_time_str = fst strs;
             end_time_str = snd strs
         in if end_time_str = start_time_str then
              hours_loop cfg ind nested_dir start_date end_date default_timeield current_day
                (hour + time_step cfg) result_queries
            else
              (let appended = append_query cfg ind nested_dir result_queries start_time_str
                     end_time_str start_date end_date default_timeield False
               in if hour + time_step cfg > 24 then appended
                  else hours_loop cfg ind nested_dir start_date end_date default_timeield
                         current_day (hour + time_step cfg) appended))
      else result_queries)"
  by pat_completeness auto
termination
  by (relation "measure (\<lambda>(cfg, ind, nd, sd, ed, tf, cd, hour, acc). nat (25 - hour))") auto

declare hours_loop.simps [simp del]

text \<open>
  The loop \<^verbatim>\<open>while current_day < end_date\<close>, from the value \<open>current_day\<close> on. The extra
  call of \<^verbatim>\<open>append_query\<close> reads \<^verbatim>\<open>start_time_str\<close> and \<^verbatim>\<open>end_time_str\<close> as the hour loop left
  them, and \<^verbatim>\<open>append_query\<close> overwrites both when \<^verbatim>\<open>is_extra_query\<close> is set; the model passes
  the dates in their place.
\<close>

function days_loop ::
  "QueryConfigurator \<Rightarrow> string \<Rightarrow> string \<Rightarrow> int \<Rightarrow> int \<Rightarrow> bool \<Rightarrow> string \<Rightarrow> int \<Rightarrow>
   SubQuery list \<Rightarrow> SubQuery list" where
  "days_loop cfg ind nested_dir start_date end_date is_compressed_index default_timeield
       current_day result_queries =
     (if current_day < end_date then
        (let windows = hours_loop cfg ind nested_dir start_date end_date default_timeield
               current_day 0 result_queries;
             with_day_extra =
               (if \<not> is_compressed_index then
                  append_query cfg ind nested_dir windows start_date end_date start_date end_date
                    default_timeield True
                else windows);
             next_day = current_day + day_ms;
             with_month_extra =
               (if next_day = end_date \<and> is_compressed_index then
                  append_query cfg ind nested_dir with_day_extra start_date end_date start_date
                    end_date default_timeield True
                else with_day_extra)
         in days_loop cfg ind nested_dir start_date end_date is_compressed_index
              default_timeield next_day with_month_extra)
      else result_queries)"
  by pat_completeness auto
termination
  by (relation "measure (\<lambda>(cfg, ind, nd, sd, ed, c, tf, cd, acc). nat (ed - cd))")
    (auto simp: day_ms_def hour_ms_def)

declare days_loop.simps [simp del]

text \<open>
  \<^verbatim>\<open>create_queries_for_date_range\<close>. A configuration built by the constructor has a step in
  1..12. For the other values of the record: \<^verbatim>\<open>range\<close> raises on a step of 0, and on a
  negative step it is empty, so that the extra call of \<^verbatim>\<open>append_query\<close> reads
  \<^verbatim>\<open>start_time_str\<close> before any assignment.
\<close>

definition create_queries_for_date_range ::
  "QueryConfigurator \<Rightarrow> string \<Rightarrow> int \<Rightarrow> int \<Rightarrow> bool \<Rightarrow> string \<Rightarrow> string \<Rightarrow> SubQuery list \<Rightarrow>
   py_exception + SubQuery list" where
  "create_queries_for_date_range cfg ind start_date end_date is_compressed_index
       default_timeield nested_dir result_queries =
     (if \<not> start_date < end_date then Inr result_queries
      else if time_step cfg = 0 then Inl (ValueError ''range() arg 3 must not be zero'')
      else if time_step cfg < 0 then
        (if is_compressed_index \<and> (end_date - start_date) mod day_ms \<noteq> 0 then Inr result_queries
         else Inl (UnboundLocalError ''start_time_str''))
      else Inr (days_loop cfg ind nested_dir start_date end_date is_compressed_index
                  default_timeield start_date result_queries))"

subsection \<open>Dates in partition names\<close>

text \<open>
  The proleptic Gregorian calendar of \<^verbatim>\<open>datetime\<close>: the number of the day \<open>y-m-d\<close> counted
  from 1970-01-01, and the date of a day number. \<^verbatim>\<open>datetime\<close> covers the years 1 to 9999.
\<close>

definition days_from_civil :: "int \<Rightarrow> int \<Rightarrow> int \<Rightarrow> int" where
  "days_from_civil y m d =
     (let y' = (if m \<le> 2 then y - 1 else y);
          era = y' div 400;
          yoe = y' - era * 400;
          doy = (153 * (if m > 2 then m - 3 else m + 9) + 2) div 5 + d - 1;
          doe = yoe * 365 + yoe div 4 - yoe div 100 + doy
      in era * 146097 + doe - 719468)"

definition civil_from_days :: "int \<Rightarrow> int \<times> int \<times> int" where
  "civil_from_days z =
     (let z' = z + 719468;
          era = z' div 146097;
          doe = z' - era * 146097;
          yoe = (doe - doe div 1460 + doe div 36524 - doe div 146096) div 365;
          doy = doe - (365 * yoe + yoe div 4 - yoe div 100);
          mp = (5 * doy + 2) div 153;
          d = doy - (153 * mp + 2) div 5 + 1;
          m = (if mp < 10 then mp + 3 else mp - 9)
      in (if m \<le> 2 then yoe + era * 400 + 1 else yoe + era * 400, m, d))"

definition days_in_month :: "int \<Rightarrow> int \<Rightarrow> int" where
  "days_in_month y m =
     (if m = 2 then (if y mod 4 = 0 \<and> (y mod 100 \<noteq> 0 \<or> y mod 400 = 0) then 29 else 28)
      else if m = 4 \<or> m = 6 \<or> m = 9 \<or> m = 11 then 30 else 31)"

definition max_datetime :: int where
  \<comment> \<open>\<^verbatim>\<open>datetime.max\<close>, in milliseconds\<close>
  "max_datetime = days_from_civil 9999 12 31 * day_ms + (day_ms - 1)"

definition add_days :: "int \<Rightarrow> int \<Rightarrow> py_exception + int" where
  \<comment> \<open>\<^verbatim>\<open>t + timedelta(days=n)\<close>\<close>
  "add_days t n =
     (if t + n * day_ms > max_datetime then Inl (OverflowError ''date value out of range'')
      else Inr (t + n * day_ms))"

definition replace_day_1 :: "int \<Rightarrow> int" where
  \<comment> \<open>\<^verbatim>\<open>t.replace(day=1)\<close>\<close>
  "replace_day_1 t =
     (case civil_from_days (t div day_ms) of
        (y, m, d) \<Rightarrow> days_from_civil y m 1 * day_ms + t mod day_ms)"

text \<open>
  \<^verbatim>\<open>datetime.strptime(f"{Y}.{M}.{D}", "%Y.%m.%d")\<close> for three strings without a dot: the
  year is four digits, the month \<^verbatim>\<open>1[0-2]|0[1-9]|[1-9]\<close>, the day
  \<^verbatim>\<open>3[01]|[12]\d|0[1-9]|[1-9]| [1-9]\<close> (digits read on ASCII); the year 0 and a day past the
  end of the month are refused. The result is midnight of the day.
\<close>

definition digit_val :: "char \<Rightarrow> nat option" where
  "digit_val c =
     (let n = (of_char c :: nat) in if 48 \<le> n \<and> n \<le> 57 then Some (n - 48) else None)"

fun digits_val :: "nat \<Rightarrow> string \<Rightarrow> nat option" where
  "digits_val acc [] = Some acc"
| "digits_val acc (c # cs) =
     (case digit_val c of None \<Rightarrow> None | Some v \<Rightarrow> digits_val (10 * acc + v) cs)"

definition strptime_year :: "string \<Rightarrow> nat option" where
  "strptime_year s = (if length s = 4 then digits_val 0 s else None)"

definition strptime_month :: "string \<Rightarrow> nat option" where
  "strptime_month s =
     (if length s = 1 \<or> length s = 2 then
        (case digits_val 0 s of
           Some n \<Rightarrow> if 1 \<le> n \<and> n \<le> 12 then Some n else None
         | None \<Rightarrow> None)
      else None)"

definition strptime_day :: "string \<Rightarrow> nat option" where
  "strptime_day s =
     (if length s = 2 \<and> hd s = CHR '' '' then
        (case digits_val 0 (tl s) of
           Some n \<Rightarrow> if 1 \<le> n then Some n else None
         | None \<Rightarrow> None)
      else if length s = 1 \<or> length s = 2 then
        (case digits_val 0 s of
           Some n \<Rightarrow> if 1 \<le> n \<and> n \<le> 31 then Some n else None
         | None \<Rightarrow> None)
      else None)"

definition strptime_ymd :: "string \<Rightarrow> string \<Rightarrow> string \<Rightarrow> py_exception + int" where
  "strptime_ymd ys ms ds =
     (case (strptime_year ys, strptime_month ms, strptime_day ds) of
        (Some y, Some m, Some d) \<Rightarrow>
          if y = 0 then Inl (ValueError ''year 0 is out of range'')
          else if int d > days_in_month (int y) (int m) then
            Inl (ValueError ''day is out of range for month'')
          else Inr (days_from_civil (int y) (int m) (int d) * day_ms)
      | _ \<Rightarrow> Inl (ValueError ''time data does not match format''))"

fun split_char :: "char \<Rightarrow> string \<Rightarrow> string \<Rightarrow> string list" where
  \<comment> \<open>\<^verbatim>\<open>s.split(sep)\<close> for a separator of one character; the second argument is the piece read so far\<close>
  "split_char sep cur [] = [rev cur]"
| "split_char sep cur (c # cs) =
     (if c = sep then rev cur # split_char sep [] cs else split_char sep (c # cur) cs)"

definition parse_date_from_index :: "string \<Rightarrow> py_exception + (int \<times> int \<times> bool)" where
  "parse_date_from_index date_part =
     (let parts = split_char (CHR ''.'') [] date_part in
      if length parts = 2 then
        (case strptime_ymd (parts ! 0) (parts ! 1) ''01'' of
           Inl e \<Rightarrow> Inl e
         | Inr start_date \<Rightarrow>
             (case add_days start_date 31 of
                Inl e \<Rightarrow> Inl e
              | Inr later \<Rightarrow> Inr (start_date, replace_day_1 later, True)))
      else if length parts < 3 then Inl (IndexError ''list index out of range'')
      else
        (case strptime_ymd (parts ! 0) (parts ! 1) (parts ! 2) of
           Inl e \<Rightarrow> Inl e
         | Inr start_date \<Rightarrow>
             (case add_days start_date 1 of
                Inl e \<Rightarrow> Inl e
              | Inr end_date \<Rightarrow> Inr (start_date, end_date, False))))"

subsection \<open>\<^verbatim>\<open>prepare_queries\<close>\<close>

fun contains :: "string \<Rightarrow> string \<Rightarrow> bool" where
  \<comment> \<open>\<^verbatim>\<open>sub in s\<close>\<close>
  "contains sub [] = (sub = [])"
| "contains sub (c # cs) = (take (length sub) (c # cs) = sub \<or> contains sub cs)"

definition handle_index_without_date ::
  "string \<Rightarrow> string \<Rightarrow> QueryConfigurator \<Rightarrow> SubQuery list \<Rightarrow> string \<Rightarrow> SubQuery list" where
  "handle_index_without_date ind nested_dir cfg result_queries default_timeield =
     result_queries @
       [\<lparr> sq_index = ind, sq_timefield = default_timeield,
          sq_clause = (if has_range cfg then Regular (the (gte cfg)) (the (lte cfg)) True
                       else NoClause),
          sq_type_times = (has_range cfg \<and> name_of_type cfg = ''Type''),
          sq_accounts = contains ''accounts'' ind,
          sq_file = \<lparr> cf_dir = nested_dir, cf_index = ind, cf_name = FullFile \<rparr> \<rparr>]"

definition create_directory :: "string \<Rightarrow> string \<Rightarrow> string" where
  \<comment> \<open>\<^verbatim>\<open>os.path.join(temp_dir, ind)\<close>, for a relative \<open>ind\<close>\<close>
  "create_directory temp_dir ind = temp_dir @ ''/'' @ ind"

text \<open>
  The loop \<^verbatim>\<open>for ind in configurator.indexes\<close> of \<^verbatim>\<open>prepare_queries\<close>. The result says
  whether the function returned from inside the loop (the \<^verbatim>\<open>return result_queries\<close> after
  \<^verbatim>\<open>handle_index_without_date\<close>) or the loop ran to its end.
\<close>

fun index_loop ::
  "QueryConfigurator \<Rightarrow> string \<Rightarrow> string \<Rightarrow> string list \<Rightarrow> SubQuery list \<Rightarrow>
   py_exception + (SubQuery list \<times> bool)" where
  "index_loop cfg temp_dir default_timeield [] result_queries = Inr (result_queries, False)"
| "index_loop cfg temp_dir default_timeield (ind # rest) result_queries =
     (let nested_dir = create_directory temp_dir ind;
          date_part = (if CHR ''-'' \<in> set ind then Some (split_char (CHR ''-'') [] ind ! 1)
                       else None)
      in if date_part = None \<or> date_part = Some [] then
           Inr (handle_index_without_date ind nested_dir cfg result_queries default_timeield,
                True)
         else
           (case parse_date_from_index (the date_part) of
              Inl e \<Rightarrow> Inl e
            | Inr (start_date, end_date, is_compressed_index) \<Rightarrow>
                (case create_queries_for_date_range cfg ind start_date end_date
                        is_compressed_index default_timeield nested_dir result_queries of
                   Inl e \<Rightarrow> Inl e
                 | Inr appended \<Rightarrow> index_loop cfg temp_dir default_timeield rest appended)))"

text \<open>
  \<^verbatim>\<open>prepare_queries\<close>. The first argument is the permutation \<^verbatim>\<open>random.shuffle\<close> applies to
  the list.
\<close>

definition prepare_queries ::
  "(SubQuery list \<Rightarrow> SubQuery list) \<Rightarrow> QueryConfigurator \<Rightarrow> string \<Rightarrow> string \<Rightarrow>
   py_exception + SubQuery list" where
  "prepare_queries shuffle cfg temp_dir default_timeield =
     (let timefield = (case date_range cfg of
                         Some r \<Rightarrow> if r \<noteq> [] then r else default_timeield
                       | None \<Rightarrow> default_timeield)
      in case index_loop cfg temp_dir timefield (indexes cfg) [] of
           Inl e \<Rightarrow> Inl e
         | Inr (result_queries, True) \<Rightarrow> Inr result_queries
         | Inr (result_queries, False) \<Rightarrow> Inr (shuffle result_queries))"

subsection \<open>Reading the SubQueries\<close>

definition is_extra :: "SubQuery \<Rightarrow> bool" where
  "is_extra q = (cf_name (sq_file q) = ExtraFile)"

definition matching :: "int \<Rightarrow> SubQuery list \<Rightarrow> SubQuery list" where
  \<comment> \<open>the SubQueries whose hour condition a row at the instant \<open>t\<close> satisfies\<close>
  "matching t qs = filter (\<lambda>q. clause_holds (sq_clause q) t) qs"

text \<open>The hour condition of the extra SubQuery of a partition from \<open>sd\<close> to \<open>ed\<close>.\<close>

definition extra_clause_of :: "QueryConfigurator \<Rightarrow> int \<Rightarrow> int \<Rightarrow> time_clause" where
  "extra_clause_of cfg sd ed = Extra (floor_day sd) (floor_day ed)
       (if has_range cfg then Some (the (gte cfg), the (lte cfg)) else None)"

section \<open>The run: \<^verbatim>\<open>download_data_parallel\<close>\<close>

text \<open>
  The run is modelled by its effects on the cache (the cache directories below
  \<^verbatim>\<open>cache_storage\<close> and the pickle files in them, each with the number of rows it holds), by a
  trace of the calls that matter outside the function, and by its two counters. The
  content of a table is reduced to its number of rows; log messages, the progress bar and
  the garbage collector are left out. The worker pool is read sequentially, in the order of
  \<^verbatim>\<open>executor.map\<close>: \<^verbatim>\<open>os._exit(1)\<close> in a worker ends the process at that point. The backend
  (\<^verbatim>\<open>self.get_dataframe\<close>) is a parameter: it answers a query with a number of rows or raises.
\<close>

datatype event =
    Write_instance_info string
  | Start_monitoring
  | Stop_monitoring
  | Join_memory_thread
  | Backend_call SubQuery
  | To_pickle cache_file
  | Summary nat nat
  | Move_query_log_file string
  | Rmtree string
  | Write_csv string "cache_file list"

record run_state =
  rs_dirs :: "string list"
  rs_files :: "(cache_file \<times> nat) list"
  rs_trace :: "event list"
  rs_success :: nat
  rs_error :: nat

datatype outcome = Returned "nat option" | Raised py_exception | Exited nat

definition path_exists :: "run_state \<Rightarrow> cache_file \<Rightarrow> bool" where
  \<comment> \<open>\<^verbatim>\<open>os.path.exists(temp_filename)\<close>\<close>
  "path_exists st f = (map_of (rs_files st) f \<noteq> None)"

definition log_event :: "event \<Rightarrow> run_state \<Rightarrow> run_state" where
  "log_event e st = st \<lparr> rs_trace := rs_trace st @ [e] \<rparr>"

definition cache_dir_path :: "QueryConfigurator \<Rightarrow> string" where
  \<comment> \<open>\<^verbatim>\<open>os.path.join(temp_dir, unique_dir_name)\<close>, relative to \<^verbatim>\<open>os.getcwd()\<close>\<close>
  "cache_dir_path cfg = ''cache_storage/'' @ generate_unique_dir_name cfg"

definition create_cache_dir :: "QueryConfigurator \<Rightarrow> run_state \<Rightarrow> string \<times> bool \<times> run_state" where
  "create_cache_dir cfg st =
     (let nested_dir = cache_dir_path cfg;
          is_old_cache = (nested_dir \<in> set (rs_dirs st))
      in (nested_dir, is_old_cache,
          if is_old_cache then st else st \<lparr> rs_dirs := nested_dir # rs_dirs st \<rparr>))"

definition inside :: "string \<Rightarrow> cache_file \<Rightarrow> bool" where
  \<comment> \<open>the file lies in a directory below \<open>directory\<close>\<close>
  "inside directory f = (take (length directory + 1) (cf_dir f) = directory @ ''/'')"

definition delete_directory :: "QueryConfigurator \<Rightarrow> string \<Rightarrow> run_state \<Rightarrow> run_state" where
  \<comment> \<open>\<^verbatim>\<open>shutil.rmtree\<close> is taken to succeed; the code logs and swallows its failure\<close>
  "delete_directory cfg directory st =
     (if directory \<in> set (rs_dirs st) then
        log_event (Rmtree directory)
          (st \<lparr> rs_dirs := removeAll directory (rs_dirs st),
                rs_files := filter (\<lambda>(f, n). \<not> inside directory f) (rs_files st) \<rparr>)
      else st)"

datatype worker_result = Os_exit run_state | Worker_done "cache_file option" run_state

definition process_single_query ::
  "QueryConfigurator \<Rightarrow> (SubQuery \<Rightarrow> py_exception + nat) \<Rightarrow> SubQuery \<Rightarrow> run_state \<Rightarrow>
   worker_result" where
  "process_single_query cfg get_dataframe single_query st =
     (let temp_filename = sq_file single_query in
      if path_exists st temp_filename then
        Worker_done (Some temp_filename) (st \<lparr> rs_success := rs_success st + 1 \<rparr>)
      else
        (case get_dataframe single_query of
           Inr rows \<Rightarrow>
             if rows \<noteq> 0 then
               Worker_done (Some temp_filename)
                 ((log_event (To_pickle temp_filename) (log_event (Backend_call single_query) st))
                    \<lparr> rs_files := (temp_filename, rows) # rs_files st,
                      rs_success := rs_success st + 1 \<rparr>)
             else
               Worker_done None
                 ((log_event (Backend_call single_query) st)
                    \<lparr> rs_success := rs_success st + 1 \<rparr>)
         | Inl e \<Rightarrow>
             if \<not> ignore_exceptions cfg then Os_exit (log_event (Backend_call single_query) st)
             else
               Worker_done (Some temp_filename)
                 ((log_event (Backend_call single_query) st)
                    \<lparr> rs_error := rs_error st + 1 \<rparr>)))"

datatype pool_result = Pool_exit run_state | Pool_done "cache_file option list" run_state

fun executor_map ::
  "QueryConfigurator \<Rightarrow> (SubQuery \<Rightarrow> py_exception + nat) \<Rightarrow> SubQuery list \<Rightarrow> run_state \<Rightarrow>
   pool_result" where
  "executor_map cfg get_dataframe [] st = Pool_done [] st"
| "executor_map cfg get_dataframe (q # qs) st =
     (case process_single_query cfg get_dataframe q st of
        Os_exit st' \<Rightarrow> Pool_exit st'
      | Worker_done r st' \<Rightarrow>
          (case executor_map cfg get_dataframe qs st' of
             Pool_exit st'' \<Rightarrow> Pool_exit st''
           | Pool_done rs st'' \<Rightarrow> Pool_done (r # rs) st''))"

definition finalize_process :: "QueryConfigurator \<Rightarrow> string \<Rightarrow> bool \<Rightarrow> run_state \<Rightarrow> run_state" where
  "finalize_process cfg temp_dir is_old_cache st =
     (let st1 = (if \<not> isin_container cfg then
                   log_event Join_memory_thread (log_event Stop_monitoring st)
                 else st);
          st2 = log_event (Summary (rs_success st1) (rs_error st1)) st1;
          st3 = (if temp_files cfg then log_event (Move_query_log_file temp_dir) st2 else st2)
      in if \<not> temp_files cfg \<and> \<not> is_old_cache then delete_directory cfg temp_dir st3 else st3)"

definition splitext_ext :: "string \<Rightarrow> string" where
  \<comment> \<open>\<^verbatim>\<open>os.path.splitext(p)[1]\<close>\<close>
  "splitext_ext p =
     (let base = dropWhile (\<lambda>c. c = CHR ''.'') (rev (takeWhile (\<lambda>c. c \<noteq> CHR ''/'') (rev p)))
      in if CHR ''.'' \<in> set base then CHR ''.'' # rev (takeWhile (\<lambda>c. c \<noteq> CHR ''.'') (rev base))
         else [])"

definition aggregate_data_to_variable :: "cache_file list \<Rightarrow> run_state \<Rightarrow> outcome" where
  \<comment> \<open>\<^verbatim>\<open>pd.concat\<close> raises when no file yields a non-empty table\<close>
  "aggregate_data_to_variable temporary_files st =
     (if temporary_files = [] then Returned (Some 0)
      else
        (let tables = filter (\<lambda>n. n \<noteq> 0) (List.map_filter (map_of (rs_files st)) temporary_files)
         in if tables = [] then Raised (ValueError ''No objects to concatenate'')
            else Returned (Some (sum_list tables))))"

definition tqdm_is_callable :: "QueryConfigurator \<Rightarrow> bool" where
  \<comment> \<open>\<^verbatim>\<open>Tqdm\<close> is the module \<^verbatim>\<open>tqdm\<close> (bound by \<^verbatim>\<open>import tqdm\<close>) outside container mode below
      \<^verbatim>\<open>FULL_LOGGING\<close>, and the class \<^verbatim>\<open>DummyTqdm\<close> otherwise; a module cannot be called\<close>
  "tqdm_is_callable cfg = (isin_container cfg \<or> \<not> verbosity_value (verbose cfg) < 4)"

text \<open>
  The body of the \<^verbatim>\<open>try\<close> block. The order of \<^verbatim>\<open>sorted(all_temp_files)\<close> is not modelled: the
  files are kept in the order of the pool.
\<close>

definition try_block ::
  "QueryConfigurator \<Rightarrow> (SubQuery \<Rightarrow> py_exception + nat) \<Rightarrow> int \<Rightarrow> SubQuery list \<Rightarrow> run_state \<Rightarrow>
   outcome \<times> run_state" where
  "try_block cfg get_dataframe num_threads queries_to_download st =
     (let workers = min num_threads (int (length queries_to_download)) in
      if \<not> tqdm_is_callable cfg then (Raised (TypeError ''module object is not callable''), st)
      else if workers \<le> 0 then
        (Raised (ValueError ''max_workers must be greater than 0''), st)
      else
        (case executor_map cfg get_dataframe queries_to_download st of
           Pool_exit st' \<Rightarrow> (Exited 1, st')
         | Pool_done results st' \<Rightarrow>
             (let temporary_files = List.map_filter (\<lambda>r. r) results in
              if return_df cfg then (aggregate_data_to_variable temporary_files st', st')
              else if splitext_ext (output_filename cfg) \<noteq> ''.csv'' then
                (Raised (ValueError ''Unsupported file extension''), st')
              else
                (Returned None,
                 log_event (Write_csv (output_filename cfg)
                              (filter (path_exists st') temporary_files)) st'))))"

text \<open>
  \<^verbatim>\<open>download_data_parallel\<close>. Its first statement formats the configuration into a log
  message, and \<^verbatim>\<open>QueryConfigurator.__str__\<close> reads \<^verbatim>\<open>self.indexes[0]\<close>. \<^verbatim>\<open>prepare_queries\<close> is
  called before the \<^verbatim>\<open>try\<close> statement, so an exception it raises leaves the function without
  \<^verbatim>\<open>finalize_process\<close>; \<^verbatim>\<open>os._exit(1)\<close> ends the process, and no \<^verbatim>\<open>finally\<close> clause runs.
\<close>

definition download_data_parallel ::
  "(SubQuery list \<Rightarrow> SubQuery list) \<Rightarrow> (SubQuery \<Rightarrow> py_exception + nat) \<Rightarrow> string \<Rightarrow>
   QueryConfigurator \<Rightarrow> int \<Rightarrow> run_state \<Rightarrow> outcome \<times> run_state" where
  "download_data_parallel shuffle get_dataframe default_timefield cfg num_threads st0 =
     (if indexes cfg = [] then (Raised (IndexError ''list index out of range''), st0)
      else
        (case create_cache_dir cfg (st0 \<lparr> rs_success := 0, rs_error := 0 \<rparr>) of
           (temp_dir, is_old_cache, st1) \<Rightarrow>
             (let st2 = (if temp_files cfg then log_event (Write_instance_info temp_dir) st1
                         else st1);
                  st3 = (if \<not> isin_container cfg then log_event Start_monitoring st2 else st2)
              in case prepare_queries shuffle cfg temp_dir default_timefield of
                   Inl e \<Rightarrow> (Raised e, st3)
                 | Inr queries_to_download \<Rightarrow>
                     (case try_block cfg get_dataframe num_threads queries_to_download st3 of
                        (Exited code, st4) \<Rightarrow> (Exited code, st4)
                      | (result, st4) \<Rightarrow>
                          (result, finalize_process cfg temp_dir is_old_cache st4)))))"

text \<open>
  The state in which \<^verbatim>\<open>download_data_parallel\<close> reaches \<^verbatim>\<open>prepare_queries\<close>: the counters at
  zero, the cache directory created, the metadata written and the memory thread started.
\<close>

definition before_try :: "QueryConfigurator \<Rightarrow> run_state \<Rightarrow> run_state" where
  "before_try cfg st0 =
     (let st1 = snd (snd (create_cache_dir cfg (st0 \<lparr> rs_success := 0, rs_error := 0 \<rparr>)));
          st2 = (if temp_files cfg then log_event (Write_instance_info (cache_dir_path cfg)) st1
                 else st1)
      in if \<not> isin_container cfg then log_event Start_monitoring st2 else st2)"

definition backend_calls :: "run_state \<Rightarrow> SubQuery list" where
  "backend_calls st = List.map_filter (\<lambda>e. case e of Backend_call q \<Rightarrow> Some q | _ \<Rightarrow> None) (rs_trace st)"

definition teardown :: "QueryConfigurator \<Rightarrow> string \<Rightarrow> bool \<Rightarrow> nat \<Rightarrow> nat \<Rightarrow> event list" where
  \<comment> \<open>the calls of \<^verbatim>\<open>finalize_process\<close>, for a cache directory that exists\<close>
  "teardown cfg temp_dir is_old_cache s e =
     (if \<not> isin_container cfg then [Stop_monitoring, Join_memory_thread] else [])
     @ [Summary s e]
     @ (if temp_files cfg then [Move_query_log_file temp_dir] else [])
     @ (if \<not> temp_files cfg \<and> \<not> is_old_cache then [Rmtree temp_dir] else [])"

definition is_teardown_event :: "event \<Rightarrow> bool" where
  "is_teardown_event e =
     (case e of
        Stop_monitoring \<Rightarrow> True | Join_memory_thread \<Rightarrow> True | Summary s r \<Rightarrow> True
      | Move_query_log_file d \<Rightarrow> True | Rmtree d \<Rightarrow> True | _ \<Rightarrow> False)"

definition is_permutation :: "(SubQuery list \<Rightarrow> SubQuery list) \<Rightarrow> bool" where
  "is_permutation shuffle = (\<forall>xs. mset (shuffle xs) = mset xs)"

definition empty_state :: run_state where
  "empty_state = \<lparr> rs_dirs = [], rs_files = [], rs_trace = [], rs_success = 0, rs_error = 0 \<rparr>"

section \<open>Example inputs\<close>

definition example_args :: init_args where
  "example_args = default_args [''logs-2024.01.01''] ''a, `b.c`'' ''Type'' ''login''"

definition partial_bounds_args :: init_args where
  "partial_bounds_args = example_args \<lparr> arg_gte := PyDatetime 1704067200000000 \<rparr>"

definition range_args :: init_args where
  "range_args = example_args \<lparr> arg_gte := PyDatetime 1704074400000000,
                                 arg_lte := PyDatetime 1704081600000000 \<rparr>"

definition range_cfg :: QueryConfigurator where
  "range_cfg = projr (QueryConfigurator_init range_args)"

definition plain_cfg :: QueryConfigurator where
  "plain_cfg = projr (QueryConfigurator_init example_args)"

definition step2_cfg :: QueryConfigurator where
  "step2_cfg =
     projr (QueryConfigurator_init (example_args \<lparr> arg_event_type := ''login1'', arg_time_step := 2 \<rparr>))"

definition step12_cfg :: QueryConfigurator where
  "step12_cfg =
     projr (QueryConfigurator_init (example_args \<lparr> arg_event_type := ''login'', arg_time_step := 12 \<rparr>))"

definition mixed_args :: init_args where
  "mixed_args =
     example_args \<lparr> arg_indexes := [''logs-2024.01.01'', ''accounts'', ''logs-2024.01.02''] \<rparr>"

definition mixed_cfg :: QueryConfigurator where
  "mixed_cfg = projr (QueryConfigurator_init mixed_args)"

definition keep_order :: "SubQuery list \<Rightarrow> SubQuery list" where
  \<comment> \<open>a shuffle that happens to leave the list as it is\<close>
  "keep_order qs = qs"

definition backend_one_row :: "SubQuery \<Rightarrow> py_exception + nat" where
  "backend_one_row q = Inr 1"

definition backend_no_rows :: "SubQuery \<Rightarrow> py_exception + nat" where
  "backend_no_rows q = Inr 0"

definition backend_fails :: "SubQuery \<Rightarrow> py_exception + nat" where
  "backend_fails q = Inl (BackendError ''connection refused'')"

definition failfast_cfg :: QueryConfigurator where
  "failfast_cfg = projr (QueryConfigurator_init (example_args \<lparr> arg_verbose := FULL_LOGGING \<rparr>))"

definition cached_cfg :: QueryConfigurator where
  "cached_cfg =
     projr (QueryConfigurator_init
              (example_args \<lparr> arg_verbose := FULL_LOGGING, arg_temp_files := True \<rparr>))"

definition container_args :: init_args where
  "container_args = example_args \<lparr> arg_temp_files := True, arg_isin_container := True \<rparr>"

definition no_partitions_cfg :: QueryConfigurator where
  "no_partitions_cfg =
     projr (QueryConfigurator_init
              (example_args \<lparr> arg_indexes := [], arg_isin_container := True \<rparr>))"

section \<open>Properties of the configuration\<close>

lemma validate_fields_example: "validate_fields ''a, `b.c`'' = Inr True"
  by (simp add: validate_fields_def strip_final_newline_def field_item_def bare_item_def
      ident_char_def word_char_def)

lemma init_example_args:
  "arg_fields a = ''a, `b.c`'' \<Longrightarrow> set_gte_lte (arg_gte a) (arg_lte a) = Inr (g, l) \<Longrightarrow>
   \<not> isl (QueryConfigurator_init a)"
  by (simp add: QueryConfigurator_init_def validate_fields_example)

lemma init_Inr_projr: "\<not> isl r \<Longrightarrow> r = Inr (projr r)"
  by (cases r) simp_all

text \<open>
  C8. The window size of a constructed configuration is the argument when the argument
  lies in 1..12 and the default 4 otherwise; so it always lies in 1..12. In particular
  0 and 13 give 4, and 4 is kept.
\<close>

theorem window_size_clamp:
  "QueryConfigurator_init a = Inr cfg \<Longrightarrow>
     time_step cfg = (if 1 \<le> arg_time_step a \<and> arg_time_step a \<le> 12 then arg_time_step a else 4)
     \<and> 1 \<le> time_step cfg \<and> time_step cfg \<le> 12"
  by (auto simp: QueryConfigurator_init_def split: sum.splits prod.splits)

theorem window_size_clamp_witness:
  "time_step (projr (QueryConfigurator_init (example_args \<lparr> arg_time_step := 0 \<rparr>))) = 4
   \<and> time_step (projr (QueryConfigurator_init (example_args \<lparr> arg_time_step := 13 \<rparr>))) = 4
   \<and> time_step (projr (QueryConfigurator_init (example_args \<lparr> arg_time_step := 4 \<rparr>))) = 4
   \<and> time_step (projr (QueryConfigurator_init (example_args \<lparr> arg_time_step := 7 \<rparr>))) = 7"
proof -
  have ok: "\<not> isl (QueryConfigurator_init (example_args \<lparr> arg_time_step := k \<rparr>))" for k
    by (rule init_example_args [where g = None and l = None])
      (simp_all add: example_args_def default_args_def set_gte_lte_def)
  have "time_step (projr (QueryConfigurator_init (example_args \<lparr> arg_time_step := k \<rparr>)))
      = (if 1 \<le> k \<and> k \<le> 12 then k else 4)" for k
    using window_size_clamp [OF init_Inr_projr [OF ok [of k]]] by simp
  then show ?thesis by simp
qed

text \<open>
  C6, as stated, fails: with \<^verbatim>\<open>gte\<close> a datetime and \<^verbatim>\<open>lte\<close> left \<^verbatim>\<open>None\<close> the constructor
  does not raise; it returns a configuration whose two bounds are both absent.
\<close>

theorem partial_bounds_counterexample:
  "arg_gte partial_bounds_args = PyDatetime 1704067200000000
   \<and> arg_lte partial_bounds_args = PyNone
   \<and> \<not> isl (QueryConfigurator_init partial_bounds_args)
   \<and> gte (projr (QueryConfigurator_init partial_bounds_args)) = None
   \<and> lte (projr (QueryConfigurator_init partial_bounds_args)) = None"
  by (simp add: partial_bounds_args_def example_args_def default_args_def
      QueryConfigurator_init_def validate_fields_example set_gte_lte_def)

text \<open>
  C6, amended. When one of \<^verbatim>\<open>gte\<close> and \<^verbatim>\<open>lte\<close> is \<^verbatim>\<open>None\<close> (in particular when exactly
  one is), \<^verbatim>\<open>set_gte_lte\<close> returns \<^verbatim>\<open>(None, None)\<close> before it looks at the other bound:
  if the fields string is valid the construction succeeds, and both stored bounds are absent.
\<close>

theorem partial_bounds_dropped:
  "arg_gte a = PyNone \<or> arg_lte a = PyNone \<Longrightarrow> validate_fields (arg_fields a) = Inr v \<Longrightarrow>
     \<exists>cfg. QueryConfigurator_init a = Inr cfg \<and> gte cfg = None \<and> lte cfg = None"
  by (auto simp: QueryConfigurator_init_def set_gte_lte_def)

theorem partial_bounds_dropped_witness:
  "\<exists>cfg. QueryConfigurator_init partial_bounds_args = Inr cfg \<and> gte cfg = None \<and> lte cfg = None"
proof -
  have 1: "arg_gte partial_bounds_args = PyNone \<or> arg_lte partial_bounds_args = PyNone"
    by (simp add: partial_bounds_args_def example_args_def default_args_def)
  have 2: "validate_fields (arg_fields partial_bounds_args) = Inr True"
    by (simp add: partial_bounds_args_def example_args_def default_args_def validate_fields_example)
  show ?thesis by (rule partial_bounds_dropped [OF 1 2])
qed


section \<open>Properties of the cache directory name\<close>

lemma str_int_2: "str_int 2 = ''2''"
  by (simp add: str_int_def str_nat.simps digit_char_def)

lemma str_int_12: "str_int 12 = ''12''"
  by (simp add: str_int_def str_nat.simps [of 12] str_nat.simps [of 1]
      str_nat.simps [of "Suc 0"] digit_char_def)

lemma step2_cfg_simps:
  "fields_str step2_cfg = ''a, `b.c`''" "name_of_type step2_cfg = ''Type''"
  "event_type step2_cfg = ''login1''" "extra_condition step2_cfg = []" "time_step step2_cfg = 2"
  "indexes step2_cfg = [''logs-2024.01.01'']" "gte step2_cfg = None" "lte step2_cfg = None"
  "date_range step2_cfg = None"
  by (simp_all add: step2_cfg_def example_args_def default_args_def
      QueryConfigurator_init_def validate_fields_example set_gte_lte_def)

lemma step12_cfg_simps:
  "fields_str step12_cfg = ''a, `b.c`''" "name_of_type step12_cfg = ''Type''"
  "event_type step12_cfg = ''login''" "extra_condition step12_cfg = []" "time_step step12_cfg = 12"
  "indexes step12_cfg = [''logs-2024.01.01'']" "gte step12_cfg = None" "lte step12_cfg = None"
  "date_range step12_cfg = None"
  by (simp_all add: step12_cfg_def example_args_def default_args_def
      QueryConfigurator_init_def validate_fields_example set_gte_lte_def)

text \<open>
  The directory name is a function of the five parameters fields, filter field, filter
  value, extra condition and window size alone: two configurations that agree on the five
  (and differ in the time range, the output destination or anything else) have the same
  name.
\<close>

theorem cache_dir_name_deterministic:
  "fields_str c1 = fields_str c2 \<Longrightarrow> name_of_type c1 = name_of_type c2 \<Longrightarrow>
   event_type c1 = event_type c2 \<Longrightarrow> extra_condition c1 = extra_condition c2 \<Longrightarrow>
   time_step c1 = time_step c2 \<Longrightarrow>
   generate_unique_dir_name c1 = generate_unique_dir_name c2"
  by (simp add: generate_unique_dir_name_def base_string_def)

theorem cache_dir_name_deterministic_witness:
  "gte range_cfg \<noteq> gte plain_cfg
   \<and> output_filename range_cfg \<noteq> output_filename (plain_cfg \<lparr> output_filename := ''other.csv'' \<rparr>)
   \<and> generate_unique_dir_name range_cfg
       = generate_unique_dir_name (plain_cfg \<lparr> output_filename := ''other.csv'' \<rparr>)"
proof -
  have five:
    "fields_str range_cfg = fields_str (plain_cfg \<lparr> output_filename := ''other.csv'' \<rparr>)"
    "name_of_type range_cfg = name_of_type (plain_cfg \<lparr> output_filename := ''other.csv'' \<rparr>)"
    "event_type range_cfg = event_type (plain_cfg \<lparr> output_filename := ''other.csv'' \<rparr>)"
    "extra_condition range_cfg = extra_condition (plain_cfg \<lparr> output_filename := ''other.csv'' \<rparr>)"
    "time_step range_cfg = time_step (plain_cfg \<lparr> output_filename := ''other.csv'' \<rparr>)"
    by (simp_all add: range_cfg_def range_args_def plain_cfg_def example_args_def default_args_def
        QueryConfigurator_init_def validate_fields_example set_gte_lte_def)
  have other:
    "gte range_cfg \<noteq> gte plain_cfg"
    "output_filename range_cfg \<noteq> output_filename (plain_cfg \<lparr> output_filename := ''other.csv'' \<rparr>)"
    by (simp_all add: range_cfg_def range_args_def plain_cfg_def example_args_def default_args_def
        QueryConfigurator_init_def validate_fields_example set_gte_lte_def)
  show ?thesis
    using cache_dir_name_deterministic [OF five] other by simp
qed

section \<open>Properties of the partitioner\<close>

lemma matching_append: "matching t (xs @ ys) = matching t xs @ matching t ys"
  by (simp add: matching_def)

lemma floor_hour_aligned: "floor_hour (d * day_ms + h * hour_ms) = d * day_ms + h * hour_ms"
proof -
  have "d * day_ms + h * hour_ms = (d * 24 + h) * hour_ms"
    by (simp add: day_ms_def algebra_simps)
  moreover have "floor_hour (k * hour_ms) = k * hour_ms" for k
    by (simp add: floor_hour_def hour_ms_def)
  ultimately show ?thesis by simp
qed

lemma floor_day_aligned: "floor_day (d * day_ms) = d * day_ms"
  by (simp add: floor_day_def day_ms_def hour_ms_def)

lemma floor_day_next:
  assumes "24 \<le> h" "h < 48"
  shows "floor_day (d * day_ms + h * hour_ms) = (d + 1) * day_ms"
proof -
  have "(d * day_ms + h * hour_ms) div day_ms = d + 1"
    using assms by (simp add: day_ms_def hour_ms_def)
  then show ?thesis by (simp add: floor_day_def)
qed

lemma append_regular_count:
  assumes "gte cfg = Some g" "lte cfg = Some l" "g \<le> t" "t < l"
  shows "length (matching t (append_query cfg ind nd acc s e sd ed tf False))
       = length (matching t acc) + (if s \<le> t \<and> t < e then 1 else 0)"
  using assms
  by (auto simp: append_query_def has_range_def intersect_time_ranges_def matching_def Let_def)

lemma append_extra_count:
  assumes "gte cfg = Some g" "lte cfg = Some l" "g \<le> t" "t < l"
  shows "length (matching t (append_query cfg ind nd acc s e sd ed tf True))
       = length (matching t acc) + (if t < floor_day sd \<or> floor_day ed \<le> t then 1 else 0)"
  using assms
  by (auto simp: append_query_def has_range_def matching_def)

lemma hours_loop_count:
  assumes w: "0 < time_step cfg" "time_step cfg \<le> 12"
    and r: "gte cfg = Some g" "lte cfg = Some l" "g \<le> t" "t < l"
  shows "0 \<le> hour \<Longrightarrow>
     length (matching t (hours_loop cfg ind nd sd ed tf (d * day_ms) hour acc))
       = length (matching t acc)
         + (if d * day_ms + hour * hour_ms \<le> t \<and> t < (d + 1) * day_ms then 1 else 0)"
proof (induction "nat (25 - hour)" arbitrary: hour acc rule: less_induct)
  case less
  let ?w = "time_step cfg"
  let ?D = "d * day_ms"
  have hpos: "0 < hour_ms" by (simp add: hour_ms_def)
  show ?case
  proof (cases "hour < 25")
    case False
    then have "(d + 1) * day_ms \<le> ?D + hour * hour_ms"
      by (simp add: day_ms_def hour_ms_def algebra_simps)
    with False show ?thesis
      by (subst hours_loop.simps) auto
  next
    case True
    have s: "floor_hour (?D + hour * hour_ms) = ?D + hour * hour_ms"
      by (rule floor_hour_aligned)
    have sum: "?D + hour * hour_ms + ?w * hour_ms = ?D + (hour + ?w) * hour_ms"
      by (simp add: algebra_simps)
    show ?thesis
    proof (cases "hour + ?w > 24")
      case last: True
      have e: "floor_day (?D + hour * hour_ms + ?w * hour_ms) = (d + 1) * day_ms"
        unfolding sum using last True w less.prems by (intro floor_day_next) auto
      show ?thesis
      proof (cases "hour = 24")
        case True
        have eq: "(d + 1) * day_ms = ?D + hour * hour_ms"
          using True by (simp add: day_ms_def algebra_simps)
        have rest: "hours_loop cfg ind nd sd ed tf ?D (hour + ?w) acc = acc"
          using True w by (subst hours_loop.simps) auto
        show ?thesis
          using last w \<open>hour < 25\<close>
          by (subst hours_loop.simps) (simp add: get_time_strings_def s e Let_def rest eq)
      next
        case False
        then have ne: "(d + 1) * day_ms \<noteq> ?D + hour * hour_ms"
          using \<open>hour < 25\<close> by (simp add: day_ms_def hour_ms_def algebra_simps)
        show ?thesis
          using last w \<open>hour < 25\<close> ne
          by (subst hours_loop.simps)
            (simp add: get_time_strings_def s e Let_def append_regular_count [OF r])
      qed
    next
      case inner: False
      have e: "floor_hour (?D + hour * hour_ms + ?w * hour_ms) = ?D + (hour + ?w) * hour_ms"
        unfolding sum by (rule floor_hour_aligned)
      have ne: "?D + (hour + ?w) * hour_ms \<noteq> ?D + hour * hour_ms"
        using w by (simp add: hour_ms_def algebra_simps)
      have le: "?D + (hour + ?w) * hour_ms \<le> (d + 1) * day_ms"
        using inner by (simp add: day_ms_def hour_ms_def algebra_simps)
      have lt: "?D + hour * hour_ms < ?D + (hour + ?w) * hour_ms"
        using w by (simp add: hour_ms_def algebra_simps)
      have IH: "length (matching t (hours_loop cfg ind nd sd ed tf ?D (hour + ?w) acc'))
          = length (matching t acc')
            + (if ?D + (hour + ?w) * hour_ms \<le> t \<and> t < (d + 1) * day_ms then 1 else 0)" for acc'
        using w True less.prems by (intro less.hyps) auto
      show ?thesis
        using inner w True ne le lt
        by (subst hours_loop.simps)
          (auto simp: get_time_strings_def s e Let_def IH append_regular_count [OF r])
    qed
  qed
qed

lemma range_cfg_simps:
  "time_step range_cfg = 4" "gte range_cfg = Some 1704074400000" "lte range_cfg = Some 1704081600000"
  "name_of_type range_cfg = ''Type''"
  by (simp_all add: range_cfg_def range_args_def example_args_def default_args_def
      QueryConfigurator_init_def validate_fields_example set_gte_lte_def strftime_ms_def)

lemma plain_cfg_simps:
  "time_step plain_cfg = 4" "gte plain_cfg = None" "lte plain_cfg = None"
  "name_of_type plain_cfg = ''Type''"
  by (simp_all add: plain_cfg_def example_args_def default_args_def
      QueryConfigurator_init_def validate_fields_example set_gte_lte_def strftime_ms_def)

text \<open>
  Coverage of the range. For a day partition (the day \<open>d\<close>), a window size in 1..12 and a
  global range \<open>[g, l)\<close>, every instant of \<open>[g, l)\<close> satisfies the hour condition of exactly one
  of the emitted SubQueries (the regular windows cut to the range, and the extra query): no
  instant of the range is left out and none is counted twice.
\<close>

theorem window_coverage:
  assumes "1 \<le> time_step cfg" "time_step cfg \<le> 12"
    and "gte cfg = Some g" "lte cfg = Some l" and "g \<le> t" "t < l"
  shows "\<exists>qs. create_queries_for_date_range cfg ind (d * day_ms) ((d + 1) * day_ms) False tf nd []
              = Inr qs
            \<and> length (matching t qs) = 1"
proof -
  let ?D = "d * day_ms"
  have w: "0 < time_step cfg" using assms(1) by simp
  have lt: "?D < (d + 1) * day_ms" by (simp add: day_ms_def hour_ms_def algebra_simps)
  have nxt: "?D + day_ms = (d + 1) * day_ms" by (simp add: algebra_simps)
  have stop: "days_loop cfg ind nd ?D ((d + 1) * day_ms) False tf ((d + 1) * day_ms) acc = acc" for acc
    by (subst days_loop.simps) simp
  have windows: "length (matching t (hours_loop cfg ind nd ?D ((d + 1) * day_ms) tf ?D 0 []))
      = (if ?D \<le> t \<and> t < (d + 1) * day_ms then 1 else 0)"
    using hours_loop_count [OF w assms(2-6), of 0 ind nd ?D "(d + 1) * day_ms" tf d "[]"]
    by (simp add: matching_def)
  have "length (matching t (days_loop cfg ind nd ?D ((d + 1) * day_ms) False tf ?D [])) = 1"
    using lt
    by (subst days_loop.simps)
      (simp add: Let_def nxt stop append_extra_count [OF assms(3-6)] windows floor_day_aligned)
  then show ?thesis
    using lt w by (simp add: create_queries_for_date_range_def)
qed

theorem window_coverage_witness:
  "1 \<le> time_step range_cfg \<and> time_step range_cfg \<le> 12
   \<and> gte range_cfg = Some 1704074400000 \<and> lte range_cfg = Some 1704081600000
   \<and> (\<exists>qs. create_queries_for_date_range range_cfg ''logs-2024.01.01''
               (19723 * day_ms) ((19723 + 1) * day_ms) False ''timestamp''
               ''cache/logs-2024.01.01'' [] = Inr qs
             \<and> length (matching 1704074400000 qs) = 1)"
  using window_coverage [of range_cfg 1704074400000 1704081600000 1704074400000
      "''logs-2024.01.01''" 19723 "''timestamp''" "''cache/logs-2024.01.01''"]
  by (simp add: range_cfg_simps)

text \<open>
  C1 at a failing input. The day is 2024-01-01, the window size 4 and the range 02:00 to
  04:00, so that \<^verbatim>\<open>lte\<close> is the natural end of the window 00:00-04:00. \<^verbatim>\<open>intersect_time_ranges\<close>
  sets its flag on a tie of the two ends and keeps an intersection of a single instant: the
  window 00:00-04:00 becomes \<^verbatim>\<open>>= 02:00 AND <= 04:00\<close>, relaxed although its end is its own, the
  window 04:00-08:00 becomes \<^verbatim>\<open>>= 04:00 AND <= 04:00\<close>, and the instant 04:00 satisfies the
  conditions of both SubQueries.
\<close>

theorem lte_boundary_matched_twice:
  "map sq_clause (matching 1704081600000
      (projr (create_queries_for_date_range range_cfg ''logs-2024.01.01''
                (19723 * day_ms) (19724 * day_ms) False ''timestamp'' ''cache/logs-2024.01.01'' [])))
   = [Regular 1704074400000 1704081600000 True, Regular 1704081600000 1704081600000 True]"
  by (simp add: create_queries_for_date_range_def range_cfg_simps day_ms_def hour_ms_def
      days_loop.simps hours_loop.simps get_time_strings_def floor_hour_def floor_day_def
      append_query_def has_range_def intersect_time_ranges_def matching_def Let_def)



lemma append_regular_shape:
  "\<exists>regs. append_query cfg ind nd acc s e sd ed tf False = acc @ regs \<and> (\<forall>q\<in>set regs. \<not> is_extra q)"
  by (auto simp: append_query_def is_extra_def split: prod.splits option.splits)

lemma hours_loop_shape:
  "\<exists>regs. hours_loop cfg ind nd sd ed tf cd hour acc = acc @ regs \<and> (\<forall>q\<in>set regs. \<not> is_extra q)"
proof (induction "nat (25 - hour)" arbitrary: hour acc rule: less_induct)
  case less
  let ?w = "time_step cfg"
  show ?case
  proof (cases "hour < 25 \<and> 0 < ?w")
    case False
    then show ?thesis by (subst hours_loop.simps) auto
  next
    case True
    have IH: "\<exists>regs. hours_loop cfg ind nd sd ed tf cd (hour + ?w) acc' = acc' @ regs
                \<and> (\<forall>q\<in>set regs. \<not> is_extra q)" for acc'
      using True by (intro less.hyps) auto
    define s where "s = fst (get_time_strings hour cfg (cd + hour * hour_ms + ?w * hour_ms) (cd + hour * hour_ms))"
    define e where "e = snd (get_time_strings hour cfg (cd + hour * hour_ms + ?w * hour_ms) (cd + hour * hour_ms))"
    obtain r1 where r1: "append_query cfg ind nd acc s e sd ed tf False = acc @ r1"
      "\<forall>q\<in>set r1. \<not> is_extra q"
      using append_regular_shape by blast
    obtain r2 where r2: "hours_loop cfg ind nd sd ed tf cd (hour + ?w) (acc @ r1) = (acc @ r1) @ r2"
      "\<forall>q\<in>set r2. \<not> is_extra q"
      using IH by blast
    obtain r3 where r3: "hours_loop cfg ind nd sd ed tf cd (hour + ?w) acc = acc @ r3"
      "\<forall>q\<in>set r3. \<not> is_extra q"
      using IH by blast
    have "hours_loop cfg ind nd sd ed tf cd hour acc =
        (if e = s then acc @ r3 else if hour + ?w > 24 then acc @ r1 else acc @ (r1 @ r2))"
      using True by (subst hours_loop.simps) (simp add: Let_def s_def [symmetric] e_def [symmetric] r1 r2 r3)
    then show ?thesis using r1(2) r2(2) r3(2) by auto
  qed
qed

lemma append_extra_shape:
  "\<exists>x. append_query cfg ind nd acc s e sd ed tf True = acc @ [x] \<and> is_extra x
      \<and> sq_clause x = extra_clause_of cfg sd ed"
  by (simp add: append_query_def is_extra_def extra_clause_of_def)

lemma days_loop_stop: "\<not> cd < ed \<Longrightarrow> days_loop cfg ind nd sd ed c tf cd acc = acc"
  by (subst days_loop.simps) simp

lemma days_loop_last:
  "cd < ed \<Longrightarrow> cd + day_ms = ed \<Longrightarrow>
   days_loop cfg ind nd sd ed c tf cd acc
     = append_query cfg ind nd (hours_loop cfg ind nd sd ed tf cd 0 acc) sd ed sd ed tf True"
  by (subst days_loop.simps) (simp add: Let_def days_loop_stop)

lemma days_loop_inner:
  "cd < ed \<Longrightarrow> cd + day_ms \<noteq> ed \<Longrightarrow>
   days_loop cfg ind nd sd ed True tf cd acc
     = days_loop cfg ind nd sd ed True tf (cd + day_ms) (hours_loop cfg ind nd sd ed tf cd 0 acc)"
  by (subst days_loop.simps) (simp add: Let_def)

lemma days_loop_final_shape:
  assumes "cd < ed" "cd + day_ms = ed"
  shows "\<exists>regs x. days_loop cfg ind nd sd ed c tf cd acc = acc @ regs @ [x]
      \<and> (\<forall>q\<in>set regs. \<not> is_extra q) \<and> is_extra x
      \<and> sq_clause x = extra_clause_of cfg sd ed"
proof -
  obtain regs where regs: "hours_loop cfg ind nd sd ed tf cd 0 acc = acc @ regs"
    "\<forall>q\<in>set regs. \<not> is_extra q"
    using hours_loop_shape by blast
  obtain x where x: "append_query cfg ind nd (acc @ regs) sd ed sd ed tf True = (acc @ regs) @ [x]"
    "is_extra x" "sq_clause x = extra_clause_of cfg sd ed"
    using append_extra_shape by blast
  have "days_loop cfg ind nd sd ed c tf cd acc = acc @ regs @ [x]"
    by (simp only: days_loop_last [OF assms] regs(1) x(1) append_assoc)
  then show ?thesis using regs(2) x(2,3) by blast
qed

lemma days_loop_month:
  "k \<le> n \<Longrightarrow>
   \<exists>regs x. days_loop cfg ind nd sd (sd + int (Suc n) * day_ms) True tf (sd + int k * day_ms) acc
       = acc @ regs @ [x]
      \<and> (\<forall>q\<in>set regs. \<not> is_extra q) \<and> is_extra x
      \<and> sq_clause x = extra_clause_of cfg sd (sd + int (Suc n) * day_ms)"
proof (induction "n - k" arbitrary: k acc)
  case 0
  then have k: "k = n" by simp
  define ed where "ed = sd + int (Suc n) * day_ms"
  define cd where "cd = sd + int k * day_ms"
  have nxt: "cd + day_ms = ed" by (simp add: ed_def cd_def k algebra_simps)
  have lt: "cd < ed" by (simp add: ed_def cd_def k day_ms_def hour_ms_def)
  show ?case
    using days_loop_final_shape [OF lt nxt] unfolding ed_def cd_def .
next
  case (Suc m)
  then have k: "k < n" "m = n - Suc k" "Suc k \<le> n" by simp_all
  define ed where "ed = sd + int (Suc n) * day_ms"
  define cd where "cd = sd + int k * day_ms"
  define cd' where "cd' = sd + int (Suc k) * day_ms"
  obtain regs where regs: "hours_loop cfg ind nd sd ed tf cd 0 acc = acc @ regs"
    "\<forall>q\<in>set regs. \<not> is_extra q"
    using hours_loop_shape by blast
  obtain r2 x where rest: "days_loop cfg ind nd sd ed True tf cd' (acc @ regs)
      = (acc @ regs) @ r2 @ [x]" "\<forall>q\<in>set r2. \<not> is_extra q" "is_extra x"
      "sq_clause x = extra_clause_of cfg sd ed"
    using Suc.hyps(1) [OF k(2) k(3)] unfolding ed_def cd'_def by blast
  have nxt: "cd + day_ms = cd'" by (simp add: cd_def cd'_def algebra_simps)
  have lt: "cd < ed" using k(1) by (simp add: cd_def ed_def day_ms_def hour_ms_def)
  have ne: "cd + day_ms \<noteq> ed" using k(1) by (simp add: cd_def ed_def day_ms_def hour_ms_def)
  have "days_loop cfg ind nd sd ed True tf cd acc = acc @ (regs @ r2) @ [x]"
    by (simp only: days_loop_inner [OF lt ne] nxt regs(1) rest(1) append_assoc)
  moreover have "\<forall>q\<in>set (regs @ r2). \<not> is_extra q"
    using regs(2) rest(2) by auto
  ultimately show ?case
    using rest(3,4) unfolding ed_def cd_def by blast
qed

text \<open>
  C7, amended. For a day partition exactly one extra SubQuery is emitted, after the windows
  of the day, whether or not a global range is set; its condition is the complement of the
  day, and carries the range (with a strict upper bound) when one is set. For a month
  partition (of \<open>Suc n\<close> days) exactly one extra SubQuery is emitted, as the last SubQuery of
  the partition, with the complement of the month as its condition.
\<close>

theorem extra_query_once:
  assumes "0 < time_step cfg"
  shows "(\<exists>regs x. create_queries_for_date_range cfg ind sd (sd + day_ms) False tf nd []
                = Inr (regs @ [x])
            \<and> (\<forall>q\<in>set regs. \<not> is_extra q) \<and> is_extra x
            \<and> sq_clause x = extra_clause_of cfg sd (sd + day_ms))
       \<and> (\<exists>regs x. create_queries_for_date_range cfg ind sd (sd + int (Suc n) * day_ms) True tf nd []
                = Inr (regs @ [x])
            \<and> (\<forall>q\<in>set regs. \<not> is_extra q) \<and> is_extra x
            \<and> sq_clause x = extra_clause_of cfg sd (sd + int (Suc n) * day_ms))"
proof -
  have pos: "0 < day_ms" by (simp add: day_ms_def hour_ms_def)
  have lt1: "sd < sd + day_ms" using pos by simp
  have "0 < int (Suc n) * day_ms" using pos by simp
  then have lt2: "sd < sd + int (Suc n) * day_ms" by linarith
  have day: "create_queries_for_date_range cfg ind sd (sd + day_ms) False tf nd []
      = Inr (days_loop cfg ind nd sd (sd + day_ms) False tf sd [])"
    using assms lt1 by (simp add: create_queries_for_date_range_def)
  have month: "create_queries_for_date_range cfg ind sd (sd + int (Suc n) * day_ms) True tf nd []
      = Inr (days_loop cfg ind nd sd (sd + int (Suc n) * day_ms) True tf (sd + int 0 * day_ms) [])"
    using assms lt2 by (simp add: create_queries_for_date_range_def)
  show ?thesis
    unfolding day month
    using days_loop_final_shape [OF lt1 refl, of cfg ind nd sd False tf "[]"]
      days_loop_month [of 0 n cfg ind nd sd tf "[]"]
    by simp
qed

theorem extra_query_once_witness:
  "0 < time_step plain_cfg
   \<and> (\<exists>regs x. create_queries_for_date_range plain_cfg ''logs-2024.01.01''
                 (19723 * day_ms) (19723 * day_ms + day_ms) False ''timestamp'' ''cache'' []
                = Inr (regs @ [x])
            \<and> list_all (\<lambda>q. \<not> is_extra q) regs \<and> is_extra x
            \<and> sq_clause x = extra_clause_of plain_cfg (19723 * day_ms) (19723 * day_ms + day_ms))
   \<and> (\<exists>regs x. create_queries_for_date_range plain_cfg ''logs-2024.01''
                 (19723 * day_ms) (19723 * day_ms + int (Suc 30) * day_ms) True ''timestamp''
                 ''cache'' []
                = Inr (regs @ [x])
            \<and> list_all (\<lambda>q. \<not> is_extra q) regs \<and> is_extra x
            \<and> sq_clause x
                = extra_clause_of plain_cfg (19723 * day_ms) (19723 * day_ms + int (Suc 30) * day_ms))"
  using extra_query_once [where cfg = plain_cfg and ind = "''logs-2024.01.01''"
      and sd = "19723 * day_ms" and tf = "''timestamp''" and nd = "''cache''" and n = 30]
    extra_query_once [where cfg = plain_cfg and ind = "''logs-2024.01''"
      and sd = "19723 * day_ms" and tf = "''timestamp''" and nd = "''cache''" and n = 30]
  by (simp add: plain_cfg_simps list_all_iff)

text \<open>
  C7, as stated, fails: without a global range (both bounds absent) the day partition
  2024-01-01 still gets its extra SubQuery, with the bare complement as its condition.
\<close>

theorem extra_query_counterexample:
  "gte plain_cfg = None \<and> lte plain_cfg = None
   \<and> map sq_clause (filter is_extra
        (projr (create_queries_for_date_range plain_cfg ''logs-2024.01.01''
                  (19723 * day_ms) (19724 * day_ms) False ''timestamp'' ''cache/logs-2024.01.01'' [])))
     = [Extra 1704067200000 1704153600000 None]"
  by (simp add: create_queries_for_date_range_def plain_cfg_simps day_ms_def hour_ms_def
      days_loop.simps hours_loop.simps get_time_strings_def floor_hour_def floor_day_def
      append_query_def has_range_def is_extra_def Let_def)



section \<open>Properties of \<^verbatim>\<open>prepare_queries\<close>\<close>

lemma parse_day_example:
  "parse_date_from_index ''2024.01.01'' = Inr (1704067200000, 1704153600000, False)"
  by code_simp

lemma parse_month_example:
  "parse_date_from_index ''2024.02'' = Inr (1706745600000, 1709251200000, True)"
  by code_simp

lemma parse_bad_examples:
  "parse_date_from_index ''2024'' = Inl (IndexError ''list index out of range'')"
  "parse_date_from_index ''2024.13'' = Inl (ValueError ''time data does not match format'')"
  "parse_date_from_index ''2023.02.29'' = Inl (ValueError ''day is out of range for month'')"
  "parse_date_from_index ''9999.12'' = Inl (OverflowError ''date value out of range'')"
  "parse_date_from_index ''9999.12.31'' = Inl (OverflowError ''date value out of range'')"
  "parse_date_from_index ''9999.12.30'' = Inr (253402128000000, 253402214400000, False)"
  by code_simp+

lemma mixed_cfg_simps:
  "indexes mixed_cfg = [''logs-2024.01.01'', ''accounts'', ''logs-2024.01.02'']"
  "time_step mixed_cfg = 4" "gte mixed_cfg = None" "lte mixed_cfg = None"
  "date_range mixed_cfg = None"
  "name_of_type mixed_cfg = ''Type''"
  by (simp_all add: mixed_cfg_def mixed_args_def example_args_def default_args_def
      QueryConfigurator_init_def validate_fields_example set_gte_lte_def)

text \<open>
  C2 at a failing input. The configured partitions are \<^verbatim>\<open>logs-2024.01.01\<close>, \<^verbatim>\<open>accounts\<close> and
  \<^verbatim>\<open>logs-2024.01.02\<close>. The first gets its six windows and its extra query, the second its
  full query; there \<^verbatim>\<open>prepare_queries\<close> returns from inside its loop, and the third
  partition gets no SubQuery (nor is the list shuffled).
\<close>

theorem early_return_drops_partitions:
  "map sq_index (projr (prepare_queries shuffle mixed_cfg temp_dir tf))
     = [''logs-2024.01.01'', ''logs-2024.01.01'', ''logs-2024.01.01'', ''logs-2024.01.01'',
        ''logs-2024.01.01'', ''logs-2024.01.01'', ''logs-2024.01.01'', ''accounts'']"
  apply (simp add: prepare_queries_def mixed_cfg_simps create_directory_def parse_day_example
      Let_def split: option.splits)
  apply (simp add: create_queries_for_date_range_def mixed_cfg_simps day_ms_def hour_ms_def
      days_loop.simps hours_loop.simps get_time_strings_def floor_hour_def floor_day_def
      append_query_def has_range_def handle_index_without_date_def Let_def split: option.splits)
  done



lemma step_cfg_prepare:
  assumes "indexes cfg = [''logs-2024.01.01'']" "date_range cfg = None" "0 < time_step cfg"
  shows "prepare_queries keep_order cfg d tf
     = Inr (days_loop cfg ''logs-2024.01.01'' (d @ ''/logs-2024.01.01'') 1704067200000
              1704153600000 False tf 1704067200000 [])"
  using assms
  by (simp add: prepare_queries_def create_directory_def parse_day_example
      keep_order_def create_queries_for_date_range_def Let_def)

text \<open>
  C5 at a failing input. The five strings are concatenated with no separator before they
  are hashed, so the event type \<^verbatim>\<open>login1\<close> with window size 2 and the event type \<^verbatim>\<open>login\<close> with
  window size 12 give the same text, the same directory name and the same cache directory;
  the extra SubQuery of the partition \<^verbatim>\<open>logs-2024.01.01\<close> then has the same cache file under
  both configurations, and a run of the one takes the file of the other for its own.
\<close>

theorem cache_dir_name_collision:
  "event_type step2_cfg \<noteq> event_type step12_cfg
   \<and> time_step step2_cfg \<noteq> time_step step12_cfg
   \<and> generate_unique_dir_name step2_cfg = generate_unique_dir_name step12_cfg
   \<and> cache_dir_path step2_cfg = cache_dir_path step12_cfg
   \<and> sq_file (last (projr (prepare_queries keep_order step2_cfg (cache_dir_path step2_cfg)
                               ''timestamp'')))
     = sq_file (last (projr (prepare_queries keep_order step12_cfg (cache_dir_path step12_cfg)
                               ''timestamp'')))"
proof -
  have "base_string step2_cfg = base_string step12_cfg"
    by (simp add: base_string_def step2_cfg_simps step12_cfg_simps str_int_2 str_int_12)
  then have name: "generate_unique_dir_name step2_cfg = generate_unique_dir_name step12_cfg"
    by (simp add: generate_unique_dir_name_def)
  then have dir: "cache_dir_path step2_cfg = cache_dir_path step12_cfg"
    by (simp add: cache_dir_path_def)
  have p2: "prepare_queries keep_order step2_cfg (cache_dir_path step12_cfg) ''timestamp''
      = Inr (days_loop step2_cfg ''logs-2024.01.01'' (cache_dir_path step12_cfg @ ''/logs-2024.01.01'')
               1704067200000 1704153600000 False ''timestamp'' 1704067200000 [])"
    by (rule step_cfg_prepare) (simp_all add: step2_cfg_simps)
  have p12: "prepare_queries keep_order step12_cfg (cache_dir_path step12_cfg) ''timestamp''
      = Inr (days_loop step12_cfg ''logs-2024.01.01'' (cache_dir_path step12_cfg @ ''/logs-2024.01.01'')
               1704067200000 1704153600000 False ''timestamp'' 1704067200000 [])"
    by (rule step_cfg_prepare) (simp_all add: step12_cfg_simps)
  have same_file: "sq_file (last (projr (prepare_queries keep_order step2_cfg (cache_dir_path step12_cfg)
                               ''timestamp'')))
     = sq_file (last (projr (prepare_queries keep_order step12_cfg (cache_dir_path step12_cfg)
                               ''timestamp'')))"
    unfolding p2 p12
    by (simp add: step2_cfg_simps step12_cfg_simps day_ms_def hour_ms_def days_loop.simps
        hours_loop.simps get_time_strings_def floor_hour_def floor_day_def append_query_def
        has_range_def Let_def)
  show ?thesis
    using name dir same_file by (simp add: step2_cfg_simps step12_cfg_simps)
qed

section \<open>Properties of the run\<close>

lemma log_event_simps [simp]:
  "rs_dirs (log_event e st) = rs_dirs st"
  "rs_files (log_event e st) = rs_files st"
  "rs_trace (log_event e st) = rs_trace st @ [e]"
  "rs_success (log_event e st) = rs_success st"
  "rs_error (log_event e st) = rs_error st"
  by (simp_all add: log_event_def)

lemma path_exists_log_event [simp]: "path_exists (log_event e st) f = path_exists st f"
  by (simp add: path_exists_def)

lemma finalize_trace:
  assumes "temp_dir \<in> set (rs_dirs st)"
  shows "rs_trace (finalize_process cfg temp_dir is_old_cache st)
       = rs_trace st @ teardown cfg temp_dir is_old_cache (rs_success st) (rs_error st)"
  using assms by (simp add: finalize_process_def teardown_def delete_directory_def Let_def)

lemma finalize_dirs:
  "\<not> temp_files cfg \<Longrightarrow> temp_dir \<notin> set (rs_dirs (finalize_process cfg temp_dir False st))"
  by (simp add: finalize_process_def delete_directory_def Let_def)

text \<open>
  C9. A configuration constructed with \<^verbatim>\<open>isin_container=True\<close> stores \<^verbatim>\<open>temp_files = False\<close>
  whatever the caller passed; so \<^verbatim>\<open>finalize_process\<close>, for a cache directory that did not
  exist before the run (\<^verbatim>\<open>is_old_cache\<close> false), emits the summary and then deletes the
  directory with the cache files below it.
\<close>

theorem container_mode_cache_deleted:
  assumes "QueryConfigurator_init a = Inr cfg" and "arg_isin_container a"
  shows "\<not> temp_files cfg
       \<and> (temp_dir \<in> set (rs_dirs st) \<longrightarrow>
            rs_trace (finalize_process cfg temp_dir False st)
              = rs_trace st @ [Summary (rs_success st) (rs_error st), Rmtree temp_dir]
            \<and> temp_dir \<notin> set (rs_dirs (finalize_process cfg temp_dir False st))
            \<and> (\<forall>f. inside temp_dir f \<longrightarrow>
                  \<not> path_exists (finalize_process cfg temp_dir False st) f))"
proof -
  have c: "isin_container cfg" "\<not> temp_files cfg"
    using assms by (auto simp: QueryConfigurator_init_def split: sum.splits prod.splits)
  have "\<not> path_exists (finalize_process cfg temp_dir False st) f"
    if "temp_dir \<in> set (rs_dirs st)" "inside temp_dir f" for f
  proof -
    have "map_of (filter (\<lambda>(f, n). \<not> inside temp_dir f) (rs_files st)) f = None"
      using that(2) by (simp add: map_of_eq_None_iff image_iff)
    then show ?thesis
      using c that(1) by (simp add: finalize_process_def delete_directory_def Let_def path_exists_def)
  qed
  then show ?thesis
    using c finalize_dirs [OF c(2)] by (simp add: finalize_trace teardown_def)
qed

theorem container_mode_cache_deleted_witness:
  "\<not> temp_files (projr (QueryConfigurator_init container_args))
   \<and> rs_trace (finalize_process (projr (QueryConfigurator_init container_args)) ''cache_storage/k''
                False (empty_state \<lparr> rs_dirs := [''cache_storage/k''] \<rparr>))
       = [Summary 0 0, Rmtree ''cache_storage/k'']
   \<and> ''cache_storage/k''
       \<notin> set (rs_dirs (finalize_process (projr (QueryConfigurator_init container_args))
                         ''cache_storage/k'' False
                         (empty_state \<lparr> rs_dirs := [''cache_storage/k''] \<rparr>)))"
proof -
  have ok: "QueryConfigurator_init container_args = Inr (projr (QueryConfigurator_init container_args))"
    by (rule init_Inr_projr, rule init_example_args [where g = None and l = None])
      (simp_all add: container_args_def example_args_def default_args_def set_gte_lte_def)
  have c: "arg_isin_container container_args"
    by (simp add: container_args_def)
  show ?thesis
    using container_mode_cache_deleted [OF ok c, of "''cache_storage/k''"
        "empty_state \<lparr> rs_dirs := [''cache_storage/k''] \<rparr>"]
    by (simp add: empty_state_def)
qed

lemma process_single_query_dirs:
  "(case process_single_query cfg b q st of Os_exit s \<Rightarrow> rs_dirs s | Worker_done r s \<Rightarrow> rs_dirs s)
     = rs_dirs st"
  by (simp add: process_single_query_def Let_def split: sum.splits)

lemma executor_map_dirs:
  "(case executor_map cfg b qs st of Pool_exit s \<Rightarrow> rs_dirs s | Pool_done rs s \<Rightarrow> rs_dirs s)
     = rs_dirs st"
proof (induction qs arbitrary: st)
  case Nil
  show ?case by simp
next
  case (Cons q qs)
  show ?case
  proof (cases "process_single_query cfg b q st")
    case (Os_exit s)
    then show ?thesis using process_single_query_dirs [of cfg b q st] by simp
  next
    case (Worker_done r s)
    then have "rs_dirs s = rs_dirs st"
      using process_single_query_dirs [of cfg b q st] by simp
    with Cons.IH [of s] Worker_done show ?thesis
      by (auto split: pool_result.splits)
  qed
qed

lemma try_block_dirs: "rs_dirs (snd (try_block cfg b n qs st)) = rs_dirs st"
  using executor_map_dirs [of cfg b qs st]
  by (auto simp: try_block_def Let_def split: pool_result.splits)

text \<open>
  C3, amended. Whenever \<^verbatim>\<open>download_data_parallel\<close> leaves its \<^verbatim>\<open>try\<close> block by a return or
  by an exception (normal completion, an aggregation or writing error, a failure to
  create the progress bar or the pool), the teardown runs last: the memory thread is
  stopped and joined outside container mode, the summary is emitted, the query log is
  moved when intermediate files are kept, and a cache directory that is new and not kept
  is deleted.
\<close>

theorem teardown_after_try_block:
  assumes "indexes cfg \<noteq> []"
    and "prepare_queries sh cfg (cache_dir_path cfg) tf = Inr qs"
    and "download_data_parallel sh b tf cfg n st0 = (out, st')"
    and "\<forall>code. out \<noteq> Exited code"
  shows "(\<exists>before s e. rs_trace st'
            = before @ teardown cfg (cache_dir_path cfg) (cache_dir_path cfg \<in> set (rs_dirs st0)) s e)
       \<and> (\<not> temp_files cfg \<and> cache_dir_path cfg \<notin> set (rs_dirs st0)
            \<longrightarrow> cache_dir_path cfg \<notin> set (rs_dirs st'))"
proof -
  define d where "d = cache_dir_path cfg"
  define old where "old = (d \<in> set (rs_dirs st0))"
  define st1 where "st1 = snd (snd (create_cache_dir cfg (st0 \<lparr> rs_success := 0, rs_error := 0 \<rparr>)))"
  define st2 where "st2 = (if temp_files cfg then log_event (Write_instance_info d) st1 else st1)"
  define st3 where "st3 = (if \<not> isin_container cfg then log_event Start_monitoring st2 else st2)"
  define st4 where "st4 = snd (try_block cfg b n qs st3)"
  have cc: "create_cache_dir cfg (st0 \<lparr> rs_success := 0, rs_error := 0 \<rparr>) = (d, old, st1)"
    by (simp add: create_cache_dir_def st1_def d_def old_def Let_def)
  have dirs3: "d \<in> set (rs_dirs st3)"
    by (simp add: st3_def st2_def st1_def create_cache_dir_def d_def Let_def)
  have dirs4: "d \<in> set (rs_dirs st4)"
    using dirs3 by (simp add: st4_def try_block_dirs)
  have run: "download_data_parallel sh b tf cfg n st0
      = (case try_block cfg b n qs st3 of
           (Exited code, s) \<Rightarrow> (Exited code, s)
         | (result, s) \<Rightarrow> (result, finalize_process cfg d old s))"
    using assms(1,2)
    by (simp add: download_data_parallel_def cc Let_def st3_def st2_def d_def [symmetric])
  have st': "st' = finalize_process cfg d old st4"
    using assms(3,4) unfolding run st4_def
    by (cases "try_block cfg b n qs st3"; cases "fst (try_block cfg b n qs st3)") auto
  have "rs_trace st' = rs_trace st4 @ teardown cfg d old (rs_success st4) (rs_error st4)"
    unfolding st' by (rule finalize_trace [OF dirs4])
  moreover have "d \<notin> set (rs_dirs st')" if "\<not> temp_files cfg" "\<not> old"
    using that finalize_dirs [of cfg d st4] unfolding st' by simp
  ultimately show ?thesis
    unfolding d_def [symmetric] old_def [symmetric] by blast
qed


lemma failfast_cfg_simps:
  "indexes failfast_cfg = [''logs-2024.01.01'']" "time_step failfast_cfg = 4"
  "gte failfast_cfg = None" "lte failfast_cfg = None" "date_range failfast_cfg = None"
  "name_of_type failfast_cfg = ''Type''" "verbose failfast_cfg = FULL_LOGGING"
  "\<not> isin_container failfast_cfg" "\<not> temp_files failfast_cfg"
  "\<not> ignore_exceptions failfast_cfg" "\<not> return_df failfast_cfg"
  "output_filename failfast_cfg = ''login_out.csv''"
  by (simp_all add: failfast_cfg_def example_args_def default_args_def
      QueryConfigurator_init_def validate_fields_example set_gte_lte_def)

lemmas partition_eval = create_queries_for_date_range_def day_ms_def hour_ms_def
  days_loop.simps hours_loop.simps get_time_strings_def floor_hour_def floor_day_def
  append_query_def has_range_def handle_index_without_date_def

lemma single_day_queries:
  assumes "indexes cfg = [''logs-2024.01.01'']" "time_step cfg = 4" "gte cfg = None"
    "lte cfg = None" "date_range cfg = None"
  shows "\<exists>q qs. prepare_queries keep_order cfg d tf = Inr (q # qs) \<and> length qs = 6"
  apply (simp add: prepare_queries_def assms create_directory_def parse_day_example
      keep_order_def Let_def split: option.splits)
  apply (simp add: partition_eval assms keep_order_def Let_def)
  done

text \<open>
  C3, as stated, fails on the fail-fast path. With \<^verbatim>\<open>ignore_exceptions\<close> false and a backend
  that raises, the worker calls \<^verbatim>\<open>os._exit(1)\<close>: the process ends after the first backend call,
  with the memory thread started and never stopped, no summary, and the new cache directory
  still in place.
\<close>

theorem teardown_counterexample:
  "fst (download_data_parallel keep_order backend_fails ''timestamp'' failfast_cfg 10 empty_state)
     = Exited 1
   \<and> filter is_teardown_event
        (rs_trace (snd (download_data_parallel keep_order backend_fails ''timestamp'' failfast_cfg 10
                          empty_state))) = []
   \<and> Start_monitoring
       \<in> set (rs_trace (snd (download_data_parallel keep_order backend_fails ''timestamp''
                                 failfast_cfg 10 empty_state)))
   \<and> rs_dirs (snd (download_data_parallel keep_order backend_fails ''timestamp'' failfast_cfg 10
                       empty_state)) = [cache_dir_path failfast_cfg]"
proof -
  obtain q qs where p: "prepare_queries keep_order failfast_cfg (cache_dir_path failfast_cfg)
      ''timestamp'' = Inr (q # qs)"
    using single_day_queries [OF failfast_cfg_simps(1-5)] by blast
  have "download_data_parallel keep_order backend_fails ''timestamp'' failfast_cfg 10 empty_state
      = (Exited 1,
         \<lparr> rs_dirs = [cache_dir_path failfast_cfg], rs_files = [],
           rs_trace = [Start_monitoring, Backend_call q], rs_success = 0, rs_error = 0 \<rparr>)"
    by (simp add: download_data_parallel_def failfast_cfg_simps create_cache_dir_def empty_state_def
        Let_def p try_block_def tqdm_is_callable_def process_single_query_def path_exists_def
        backend_fails_def log_event_def)
  then show ?thesis
    by (simp add: is_teardown_event_def)
qed


lemma no_partitions_cfg_simps:
  "indexes no_partitions_cfg = []" "isin_container no_partitions_cfg" "date_range no_partitions_cfg = None"
  by (simp_all add: no_partitions_cfg_def example_args_def default_args_def
      QueryConfigurator_init_def validate_fields_example set_gte_lte_def)

text \<open>
  C10, as stated, fails: for an empty partition list the prepared list is empty, yet the
  error is not the one of the thread pool. The run raises \<^verbatim>\<open>IndexError\<close> in its first
  statement and touches nothing.
\<close>

theorem empty_partition_list_counterexample:
  "prepare_queries keep_order no_partitions_cfg (cache_dir_path no_partitions_cfg) ''timestamp'' = Inr []
   \<and> download_data_parallel keep_order backend_one_row ''timestamp'' no_partitions_cfg 10 empty_state
     = (Raised (IndexError ''list index out of range''), empty_state)"
  by (simp add: prepare_queries_def download_data_parallel_def no_partitions_cfg_simps keep_order_def)

text \<open>
  C10, amended. With an empty partition list \<^verbatim>\<open>download_data_parallel\<close> raises \<^verbatim>\<open>IndexError\<close>
  before it creates the cache directory, calls the backend or writes anything: the state
  is unchanged. The prepared list would be the empty one, and on the empty list the \<^verbatim>\<open>try\<close>
  block (where the progress bar can be created) raises the \<^verbatim>\<open>ValueError\<close> of a pool with zero
  workers.
\<close>

theorem empty_partition_list_fails:
  assumes "indexes cfg = []"
  shows "download_data_parallel sh b tf cfg n st = (Raised (IndexError ''list index out of range''), st)
       \<and> prepare_queries sh cfg d tf = Inr (sh [])
       \<and> (tqdm_is_callable cfg \<longrightarrow>
            try_block cfg b n [] st = (Raised (ValueError ''max_workers must be greater than 0''), st))"
  using assms
  by (simp add: download_data_parallel_def prepare_queries_def try_block_def split: option.splits)

theorem empty_partition_list_fails_witness:
  "indexes no_partitions_cfg = [] \<and> tqdm_is_callable no_partitions_cfg
   \<and> download_data_parallel keep_order backend_one_row ''timestamp'' no_partitions_cfg 10 empty_state
       = (Raised (IndexError ''list index out of range''), empty_state)
   \<and> prepare_queries keep_order no_partitions_cfg ''cache_storage/k'' ''timestamp''
       = Inr (keep_order [])
   \<and> try_block no_partitions_cfg backend_one_row 10 [] empty_state
       = (Raised (ValueError ''max_workers must be greater than 0''), empty_state)"
  using empty_partition_list_fails [of no_partitions_cfg keep_order backend_one_row "''timestamp''"
      10 empty_state "''cache_storage/k''"]
  by (simp add: no_partitions_cfg_simps tqdm_is_callable_def)



lemma backend_calls_append:
  "rs_trace st' = rs_trace st @ es \<Longrightarrow>
   backend_calls st' = backend_calls st @ List.map_filter (\<lambda>e. case e of Backend_call q \<Rightarrow> Some q | _ \<Rightarrow> None) es"
  by (simp add: backend_calls_def map_filter_def)

lemma backend_calls_log_event:
  "backend_calls (log_event e st) = backend_calls st @ (case e of Backend_call q \<Rightarrow> [q] | _ \<Rightarrow> [])"
  by (cases e) (simp_all add: backend_calls_def map_filter_def log_event_def)

lemma backend_calls_cong: "rs_trace st' = rs_trace st \<Longrightarrow> backend_calls st' = backend_calls st"
  by (simp add: backend_calls_def)

lemma path_exists_cong: "rs_files st' = rs_files st \<Longrightarrow> path_exists st' f = path_exists st f"
  by (simp add: path_exists_def)

lemma before_try_files: "rs_files (before_try cfg st) = rs_files st"
  by (simp add: before_try_def create_cache_dir_def Let_def)

lemma before_try_calls: "backend_calls (before_try cfg st) = backend_calls st"
  by (simp add: before_try_def create_cache_dir_def Let_def backend_calls_log_event)
    (simp add: backend_calls_def)

lemma finalize_calls: "backend_calls (finalize_process cfg d old st) = backend_calls st"
  by (simp add: finalize_process_def delete_directory_def Let_def backend_calls_def map_filter_def)

lemma finalize_files: "temp_files cfg \<Longrightarrow> rs_files (finalize_process cfg d old st) = rs_files st"
  by (simp add: finalize_process_def Let_def)

lemma run_unfold:
  "download_data_parallel sh b tf cfg n st0 =
     (if indexes cfg = [] then (Raised (IndexError ''list index out of range''), st0)
      else case prepare_queries sh cfg (cache_dir_path cfg) tf of
             Inl e \<Rightarrow> (Raised e, before_try cfg st0)
           | Inr qs \<Rightarrow>
               (case try_block cfg b n qs (before_try cfg st0) of
                  (Exited code, st4) \<Rightarrow> (Exited code, st4)
                | (result, st4) \<Rightarrow>
                    (result, finalize_process cfg (cache_dir_path cfg)
                               (cache_dir_path cfg \<in> set (rs_dirs st0)) st4)))"
proof (cases "indexes cfg = []")
  case True
  then show ?thesis by (simp add: download_data_parallel_def)
next
  case False
  have pre: "create_cache_dir cfg (st0 \<lparr> rs_success := 0, rs_error := 0 \<rparr>)
      = (cache_dir_path cfg, cache_dir_path cfg \<in> set (rs_dirs st0),
         snd (snd (create_cache_dir cfg (st0 \<lparr> rs_success := 0, rs_error := 0 \<rparr>))))"
    by (simp add: create_cache_dir_def Let_def)
  show ?thesis
    unfolding download_data_parallel_def before_try_def Let_def
    by (subst pre) (simp add: False)
qed

lemma process_single_query_cached:
  "path_exists st (sq_file q) \<Longrightarrow>
   process_single_query cfg b q st
     = Worker_done (Some (sq_file q)) (st \<lparr> rs_success := rs_success st + 1 \<rparr>)"
  by (simp add: process_single_query_def)

lemma executor_map_cached:
  "\<forall>q\<in>set qs. path_exists st (sq_file q) \<Longrightarrow>
   \<exists>rs st'. executor_map cfg b qs st = Pool_done rs st' \<and> rs_trace st' = rs_trace st
      \<and> rs_files st' = rs_files st"
proof (induction qs arbitrary: st)
  case Nil
  show ?case by simp
next
  case (Cons q qs)
  let ?st = "st \<lparr> rs_success := rs_success st + 1 \<rparr>"
  have "\<forall>q\<in>set qs. path_exists ?st (sq_file q)"
    using Cons.prems by (simp add: path_exists_def)
  from Cons.IH [OF this] obtain rs st' where
    "executor_map cfg b qs ?st = Pool_done rs st'" "rs_trace st' = rs_trace st"
    "rs_files st' = rs_files st"
    by auto
  then show ?case
    using Cons.prems by (simp add: process_single_query_cached)
qed

lemma process_single_query_rows:
  assumes "b q = Inr n" "n \<noteq> 0"
  shows "\<exists>st'. process_single_query cfg b q st = Worker_done (Some (sq_file q)) st'
      \<and> path_exists st' (sq_file q) \<and> (\<forall>f. path_exists st f \<longrightarrow> path_exists st' f)"
  using assms by (simp add: process_single_query_def path_exists_def Let_def)

lemma executor_map_rows:
  assumes "\<forall>q. \<exists>n. b q = Inr n \<and> n \<noteq> 0"
  shows "\<exists>rs st'. executor_map cfg b qs st = Pool_done rs st'
      \<and> (\<forall>q\<in>set qs. path_exists st' (sq_file q)) \<and> (\<forall>f. path_exists st f \<longrightarrow> path_exists st' f)"
proof (induction qs arbitrary: st)
  case Nil
  show ?case by simp
next
  case (Cons q qs)
  obtain n where n: "b q = Inr n" "n \<noteq> 0" using assms by blast
  obtain s1 where s1: "process_single_query cfg b q st = Worker_done (Some (sq_file q)) s1"
    "path_exists s1 (sq_file q)" "\<forall>f. path_exists st f \<longrightarrow> path_exists s1 f"
    using process_single_query_rows [where b = b and q = q, OF n] by blast
  obtain rs s2 where s2: "executor_map cfg b qs s1 = Pool_done rs s2"
    "\<forall>q\<in>set qs. path_exists s2 (sq_file q)" "\<forall>f. path_exists s1 f \<longrightarrow> path_exists s2 f"
    using Cons.IH by blast
  show ?case
    using s1 s2 by simp
qed

lemma try_block_rows:
  assumes "\<forall>q. \<exists>n. b q = Inr n \<and> n \<noteq> 0"
  shows "(\<forall>f. path_exists st f \<longrightarrow> path_exists (snd (try_block cfg b n qs st)) f)
       \<and> (tqdm_is_callable cfg \<and> \<not> min n (int (length qs)) \<le> 0
            \<longrightarrow> (\<forall>q\<in>set qs. path_exists (snd (try_block cfg b n qs st)) (sq_file q)))
       \<and> (\<forall>code. fst (try_block cfg b n qs st) \<noteq> Exited code)"
proof -
  obtain rs st' where p: "executor_map cfg b qs st = Pool_done rs st'"
    "\<forall>q\<in>set qs. path_exists st' (sq_file q)" "\<forall>f. path_exists st f \<longrightarrow> path_exists st' f"
    using executor_map_rows [OF assms] by blast
  show ?thesis
  proof (cases "tqdm_is_callable cfg \<and> \<not> min n (int (length qs)) \<le> 0")
    case False
    then show ?thesis by (auto simp: try_block_def Let_def)
  next
    case True
    with p show ?thesis
      by (simp add: try_block_def Let_def aggregate_data_to_variable_def)
  qed
qed

lemma try_block_cached:
  assumes "tqdm_is_callable cfg \<and> \<not> min n (int (length qs)) \<le> 0
             \<longrightarrow> (\<forall>q\<in>set qs. path_exists st (sq_file q))"
  shows "backend_calls (snd (try_block cfg b n qs st)) = backend_calls st"
proof (cases "tqdm_is_callable cfg \<and> \<not> min n (int (length qs)) \<le> 0")
  case False
  then show ?thesis by (auto simp: try_block_def Let_def)
next
  case True
  with assms obtain rs st' where p: "executor_map cfg b qs st = Pool_done rs st'"
    "rs_trace st' = rs_trace st"
    using executor_map_cached by blast
  have same: "backend_calls st' = backend_calls st"
    by (rule backend_calls_cong [OF p(2)])
  show ?thesis
    using True p(1) by (simp add: try_block_def Let_def backend_calls_log_event same)
qed

lemma prepare_queries_shuffles:
  assumes "is_permutation sh1" "is_permutation sh2"
    and "prepare_queries sh1 cfg d tf = Inr qs1" "prepare_queries sh2 cfg d tf = Inr qs2"
  shows "mset qs2 = mset qs1"
  using assms
  by (auto simp: prepare_queries_def is_permutation_def Let_def split: sum.splits prod.splits bool.splits)

lemma prepare_queries_error:
  "prepare_queries sh1 cfg d tf = Inl e \<Longrightarrow> prepare_queries sh2 cfg d tf = Inl e"
  by (auto simp: prepare_queries_def Let_def split: sum.splits prod.splits bool.splits)

lemma snd_run_cases:
  "indexes cfg \<noteq> [] \<Longrightarrow> prepare_queries sh cfg (cache_dir_path cfg) tf = Inr qs \<Longrightarrow>
   snd (download_data_parallel sh b tf cfg n st0) = snd (try_block cfg b n qs (before_try cfg st0))
   \<or> snd (download_data_parallel sh b tf cfg n st0)
       = finalize_process cfg (cache_dir_path cfg) (cache_dir_path cfg \<in> set (rs_dirs st0))
           (snd (try_block cfg b n qs (before_try cfg st0)))"
  by (cases "try_block cfg b n qs (before_try cfg st0)";
      cases "fst (try_block cfg b n qs (before_try cfg st0))")
    (auto simp: run_unfold)

lemma executor_map_cached_counts:
  "\<forall>q\<in>set qs. path_exists st (sq_file q) \<Longrightarrow>
   executor_map cfg b qs st
     = Pool_done (map (\<lambda>q. Some (sq_file q)) qs) (st \<lparr> rs_success := rs_success st + length qs \<rparr>)"
proof (induction qs arbitrary: st)
  case Nil
  show ?case by simp
next
  case (Cons q qs)
  let ?st = "st \<lparr> rs_success := rs_success st + 1 \<rparr>"
  have "\<forall>q\<in>set qs. path_exists ?st (sq_file q)"
    using Cons.prems by (simp add: path_exists_def)
  from Cons.IH [OF this] show ?case
    using Cons.prems by (simp add: process_single_query_cached)
qed

lemma try_block_cached_counts:
  assumes "tqdm_is_callable cfg" "0 < n" "\<forall>q\<in>set qs. path_exists st (sq_file q)"
  shows "rs_success (snd (try_block cfg b n qs st)) = rs_success st + length qs
       \<and> rs_error (snd (try_block cfg b n qs st)) = rs_error st"
proof (cases "qs = []")
  case True
  then show ?thesis using assms(1) by (simp add: try_block_def Let_def)
next
  case False
  then have w: "\<not> min n (int (length qs)) \<le> 0"
    using assms(2) by (cases qs) (simp_all add: min_def)
  show ?thesis
    using assms(1) w by (simp add: try_block_def Let_def executor_map_cached_counts [OF assms(3)])
qed

lemma before_try_counters: "rs_success (before_try cfg st) = 0" "rs_error (before_try cfg st) = 0"
  by (simp_all add: before_try_def create_cache_dir_def Let_def)

lemma finalize_counters:
  "rs_success (finalize_process cfg d old st) = rs_success st"
  "rs_error (finalize_process cfg d old st) = rs_error st"
  by (simp_all add: finalize_process_def delete_directory_def Let_def)

text \<open>
  C4, amended. With persistent caching (\<^verbatim>\<open>temp_files\<close>), if the backend answers every query of
  the first run with a non-empty table, then a second run of the same configuration (under
  any shuffle, against any backend) calls the backend for no SubQuery. Where the second run
  reaches the worker pool (the progress bar can be created, the requested number of workers
  is positive and the partition list is not empty), every SubQuery of the second run finds
  its cache file in place and is counted successful: the run ends with as many successes as
  it has SubQueries and with no error.
\<close>

theorem second_run_is_cached:
  assumes keep: "temp_files cfg"
    and sh: "is_permutation sh1" "is_permutation sh2"
    and rows: "\<forall>q. \<exists>rows. b1 q = Inr rows \<and> rows \<noteq> 0"
    and run1: "download_data_parallel sh1 b1 tf cfg n st0 = (out1, st1)"
    and run2: "download_data_parallel sh2 b2 tf cfg n st1 = (out2, st2)"
  shows "backend_calls st2 = backend_calls st1
       \<and> (tqdm_is_callable cfg \<and> 0 < n \<and> indexes cfg \<noteq> [] \<longrightarrow>
            (\<forall>qs. prepare_queries sh2 cfg (cache_dir_path cfg) tf = Inr qs \<longrightarrow>
               (\<forall>q\<in>set qs. path_exists st1 (sq_file q))
               \<and> rs_success st2 = length qs \<and> rs_error st2 = 0))"
proof (cases "indexes cfg = []")
  case True
  then show ?thesis using run2 by (simp add: run_unfold)
next
  case ne: False
  let ?d = "cache_dir_path cfg"
  show ?thesis
  proof (cases "prepare_queries sh2 cfg ?d tf")
    case (Inl e)
    then show ?thesis using run2 ne by (auto simp: run_unfold before_try_calls)
  next
    case (Inr qs2)
    obtain qs1 where qs1: "prepare_queries sh1 cfg ?d tf = Inr qs1"
      using Inr prepare_queries_error [of sh1 cfg ?d tf _ sh2] by (cases "prepare_queries sh1 cfg ?d tf") auto
    have m: "mset qs2 = mset qs1"
      by (rule prepare_queries_shuffles [OF sh qs1 Inr])
    then have same: "set qs2 = set qs1" "length qs2 = length qs1"
      by (metis set_mset_mset, metis size_mset)
    let ?t1 = "snd (try_block cfg b1 n qs1 (before_try cfg st0))"
    have st1: "st1 = finalize_process cfg ?d (?d \<in> set (rs_dirs st0)) ?t1"
    proof -
      have "fst (try_block cfg b1 n qs1 (before_try cfg st0)) \<noteq> Exited code" for code
        using try_block_rows [OF rows] by blast
      then show ?thesis
        using run1 ne qs1
        by (cases "try_block cfg b1 n qs1 (before_try cfg st0)";
            cases "fst (try_block cfg b1 n qs1 (before_try cfg st0))")
          (auto simp: run_unfold)
    qed
    have files1: "path_exists st1 f = path_exists ?t1 f" for f
      unfolding st1 by (rule path_exists_cong, rule finalize_files [OF keep])
    have cached: "tqdm_is_callable cfg \<and> \<not> min n (int (length qs2)) \<le> 0
        \<longrightarrow> (\<forall>q\<in>set qs2. path_exists (before_try cfg st1) (sq_file q))"
      using try_block_rows [OF rows, of "before_try cfg st0" cfg n qs1] same
      by (simp add: files1 path_exists_cong [OF before_try_files])
    have calls: "backend_calls (snd (try_block cfg b2 n qs2 (before_try cfg st1))) = backend_calls st1"
      using try_block_cached [OF cached] by (simp add: before_try_calls)
    have st2: "st2 = snd (download_data_parallel sh2 b2 tf cfg n st1)"
      using run2 by simp
    have first: "backend_calls st2 = backend_calls st1"
      using st2 snd_run_cases [OF ne Inr, of b2 n st1] calls by (auto simp: finalize_calls)
    have second: "(\<forall>q\<in>set qs2. path_exists st1 (sq_file q))
        \<and> rs_success st2 = length qs2 \<and> rs_error st2 = 0"
      if pool: "tqdm_is_callable cfg" "0 < n"
    proof -
      have hits: "\<forall>q\<in>set qs2. path_exists (before_try cfg st1) (sq_file q)"
      proof (cases "qs2 = []")
        case True
        then show ?thesis by simp
      next
        case False
        then have "\<not> min n (int (length qs2)) \<le> 0"
          using pool(2) by (cases qs2) (simp_all add: min_def)
        with cached pool(1) show ?thesis by blast
      qed
      then have hits1: "\<forall>q\<in>set qs2. path_exists st1 (sq_file q)"
        by (simp add: path_exists_cong [OF before_try_files])
      have counts: "rs_success (snd (try_block cfg b2 n qs2 (before_try cfg st1))) = length qs2"
        "rs_error (snd (try_block cfg b2 n qs2 (before_try cfg st1))) = 0"
        using try_block_cached_counts [OF pool hits, of b2] by (simp_all add: before_try_counters)
      show ?thesis
        using hits1 st2 snd_run_cases [OF ne Inr, of b2 n st1] counts
        by (auto simp: finalize_counters)
    qed
    show ?thesis
      using first second Inr by auto
  qed
qed


lemma cached_cfg_simps:
  "indexes cached_cfg = [''logs-2024.01.01'']" "time_step cached_cfg = 4"
  "gte cached_cfg = None" "lte cached_cfg = None" "date_range cached_cfg = None"
  "name_of_type cached_cfg = ''Type''" "verbose cached_cfg = FULL_LOGGING"
  "\<not> isin_container cached_cfg" "temp_files cached_cfg"
  "\<not> ignore_exceptions cached_cfg" "\<not> return_df cached_cfg"
  "output_filename cached_cfg = ''login_out.csv''"
  by (simp_all add: cached_cfg_def example_args_def default_args_def
      QueryConfigurator_init_def validate_fields_example set_gte_lte_def)

lemma cached_prepare:
  "prepare_queries keep_order cached_cfg d tf
     = Inr (days_loop cached_cfg ''logs-2024.01.01'' (d @ ''/logs-2024.01.01'') 1704067200000
              1704153600000 False tf 1704067200000 [])"
  by (simp add: prepare_queries_def cached_cfg_simps create_directory_def parse_day_example
      keep_order_def create_queries_for_date_range_def Let_def)

lemmas run_eval = run_unfold before_try_def create_cache_dir_def try_block_def
  tqdm_is_callable_def process_single_query_def path_exists_def log_event_def
  finalize_process_def delete_directory_def splitext_ext_def backend_calls_def map_filter_def
  empty_state_def


lemmas window_eval = day_ms_def hour_ms_def days_loop.simps hours_loop.simps
  get_time_strings_def floor_hour_def floor_day_def append_query_def has_range_def

theorem second_run_is_cached_witness:
  "temp_files cached_cfg \<and> is_permutation keep_order \<and> tqdm_is_callable cached_cfg
   \<and> indexes cached_cfg \<noteq> []
   \<and> length (backend_calls (snd (download_data_parallel keep_order backend_one_row ''timestamp''
                                   cached_cfg 10 empty_state))) = 7
   \<and> backend_calls
        (snd (download_data_parallel keep_order backend_fails ''timestamp'' cached_cfg 10
                (snd (download_data_parallel keep_order backend_one_row ''timestamp'' cached_cfg 10
                        empty_state))))
     = backend_calls (snd (download_data_parallel keep_order backend_one_row ''timestamp''
                             cached_cfg 10 empty_state))
   \<and> list_all
        (\<lambda>q. path_exists (snd (download_data_parallel keep_order backend_one_row ''timestamp''
                                  cached_cfg 10 empty_state)) (sq_file q))
        (projr (prepare_queries keep_order cached_cfg (cache_dir_path cached_cfg) ''timestamp''))
   \<and> rs_success
        (snd (download_data_parallel keep_order backend_fails ''timestamp'' cached_cfg 10
                (snd (download_data_parallel keep_order backend_one_row ''timestamp'' cached_cfg 10
                        empty_state)))) = 7
   \<and> rs_error
        (snd (download_data_parallel keep_order backend_fails ''timestamp'' cached_cfg 10
                (snd (download_data_parallel keep_order backend_one_row ''timestamp'' cached_cfg 10
                        empty_state)))) = 0"
proof -
  let ?st1 = "snd (download_data_parallel keep_order backend_one_row ''timestamp'' cached_cfg 10
                     empty_state)"
  let ?st2 = "snd (download_data_parallel keep_order backend_fails ''timestamp'' cached_cfg 10 ?st1)"
  let ?qs = "projr (prepare_queries keep_order cached_cfg (cache_dir_path cached_cfg) ''timestamp'')"
  have p: "is_permutation keep_order"
    by (simp add: is_permutation_def keep_order_def)
  have rows: "\<forall>q. \<exists>rows. backend_one_row q = Inr rows \<and> rows \<noteq> 0"
    by (simp add: backend_one_row_def)
  have pool: "tqdm_is_callable cached_cfg" "indexes cached_cfg \<noteq> []"
    by (simp_all add: tqdm_is_callable_def cached_cfg_simps)
  have first: "length (backend_calls ?st1) = 7"
    by (simp add: run_eval cached_prepare cached_cfg_simps backend_one_row_def window_eval Let_def)
  have prep: "prepare_queries keep_order cached_cfg (cache_dir_path cached_cfg) ''timestamp''
      = Inr ?qs"
    by (simp add: cached_prepare)
  have len: "length ?qs = 7"
    by (simp add: cached_prepare cached_cfg_simps window_eval Let_def)
  note run = second_run_is_cached [where cfg = cached_cfg and ?sh1.0 = keep_order
      and ?sh2.0 = keep_order and ?b1.0 = backend_one_row and ?b2.0 = backend_fails
      and tf = "''timestamp''" and n = 10 and ?st0.0 = empty_state,
      OF cached_cfg_simps(9) p p rows surjective_pairing surjective_pairing]
  from run have calls: "backend_calls ?st2 = backend_calls ?st1"
    by (rule conjunct1)
  from run pool have "\<forall>qs. prepare_queries keep_order cached_cfg (cache_dir_path cached_cfg)
        ''timestamp'' = Inr qs \<longrightarrow>
      (\<forall>q\<in>set qs. path_exists ?st1 (sq_file q)) \<and> rs_success ?st2 = length qs
      \<and> rs_error ?st2 = 0"
    by simp
  with prep have hits: "(\<forall>q\<in>set ?qs. path_exists ?st1 (sq_file q))
      \<and> rs_success ?st2 = length ?qs \<and> rs_error ?st2 = 0"
    by blast
  show ?thesis
    using p pool first calls hits len cached_cfg_simps(9) by (simp add: list_all_iff)
qed

text \<open>
  C4, as stated, fails: an empty answer of the backend writes no cache file. With persistent
  caching and a backend that finds no rows, the first run makes seven backend calls for the
  day partition, and the second run makes the same seven calls again.
\<close>

theorem second_run_counterexample:
  "temp_files cached_cfg
   \<and> length (backend_calls (snd (download_data_parallel keep_order backend_no_rows ''timestamp''
                                   cached_cfg 10 empty_state))) = 7
   \<and> length (backend_calls
        (snd (download_data_parallel keep_order backend_no_rows ''timestamp'' cached_cfg 10
                (snd (download_data_parallel keep_order backend_no_rows ''timestamp'' cached_cfg 10
                        empty_state))))) = 14"
  by (simp add: run_eval cached_prepare cached_cfg_simps backend_no_rows_def window_eval Let_def)

lemma failfast_prepare:
  "prepare_queries keep_order failfast_cfg d tf
     = Inr (days_loop failfast_cfg ''logs-2024.01.01'' (d @ ''/logs-2024.01.01'') 1704067200000
              1704153600000 False tf 1704067200000 [])"
  by (simp add: prepare_queries_def failfast_cfg_simps create_directory_def parse_day_example
      keep_order_def create_queries_for_date_range_def Let_def)

theorem teardown_after_try_block_witness:
  "indexes failfast_cfg \<noteq> []
   \<and> fst (download_data_parallel keep_order backend_one_row ''timestamp'' failfast_cfg 10
            empty_state) = Returned None
   \<and> (\<exists>before s e.
         rs_trace (snd (download_data_parallel keep_order backend_one_row ''timestamp'' failfast_cfg
                          10 empty_state))
           = before @ [Stop_monitoring, Join_memory_thread, Summary s e,
                       Rmtree (cache_dir_path failfast_cfg)])
   \<and> cache_dir_path failfast_cfg
       \<notin> set (rs_dirs (snd (download_data_parallel keep_order backend_one_row ''timestamp''
                                failfast_cfg 10 empty_state)))"
proof -
  have ne: "indexes failfast_cfg \<noteq> []"
    by (simp add: failfast_cfg_simps)
  have out: "fst (download_data_parallel keep_order backend_one_row ''timestamp'' failfast_cfg 10
      empty_state) = Returned None"
    by (simp add: run_eval failfast_prepare failfast_cfg_simps backend_one_row_def window_eval Let_def)
  then have ok: "\<forall>code. fst (download_data_parallel keep_order backend_one_row ''timestamp''
      failfast_cfg 10 empty_state) \<noteq> Exited code"
    by simp
  show ?thesis
    using teardown_after_try_block [OF ne failfast_prepare surjective_pairing ok] ne out
    by (simp add: teardown_def failfast_cfg_simps empty_state_def)
qed



section \<open>Further properties\<close>

text \<open>
  A regular window whose intersection with the global range is empty (its cut start lies
  after its cut end) produces no SubQuery.
\<close>

theorem empty_intersection_dropped:
  "gte cfg = Some g \<Longrightarrow> lte cfg = Some l \<Longrightarrow> max s g > (if e < l then e else l) \<Longrightarrow>
   append_query cfg ind nd acc s e sd ed tf False = acc"
  by (auto simp: append_query_def has_range_def intersect_time_ranges_def Let_def
      split: if_splits)

theorem empty_intersection_dropped_witness:
  "gte range_cfg = Some 1704074400000 \<and> lte range_cfg = Some 1704081600000
   \<and> append_query range_cfg ''logs-2024.01.01'' ''cache'' [] 1704096000000 1704110400000
        1704067200000 1704153600000 ''timestamp'' False = []"
  using empty_intersection_dropped [where cfg = range_cfg and g = 1704074400000
      and l = 1704081600000 and s = 1704096000000 and e = 1704110400000
      and ind = "''logs-2024.01.01''" and nd = "''cache''" and acc = "[]"
      and sd = 1704067200000 and ed = 1704153600000 and tf = "''timestamp''"]
  by (simp add: range_cfg_simps)

text \<open>
  The stored time bounds of a constructed configuration are both set or both absent.
\<close>

theorem bounds_both_or_neither:
  "QueryConfigurator_init a = Inr cfg \<Longrightarrow> (gte cfg = None) = (lte cfg = None)"
  by (auto simp: QueryConfigurator_init_def set_gte_lte_def
      split: sum.splits prod.splits if_splits py_time_arg.splits)

theorem bounds_both_or_neither_witness:
  "(gte (projr (QueryConfigurator_init range_args)) = None)
     = (lte (projr (QueryConfigurator_init range_args)) = None)
   \<and> gte (projr (QueryConfigurator_init range_args)) = Some 1704074400000"
proof -
  have ok: "\<not> isl (QueryConfigurator_init range_args)"
    by (rule init_example_args [where g = "Some 1704074400000" and l = "Some 1704081600000"])
      (simp_all add: range_args_def example_args_def default_args_def set_gte_lte_def
        strftime_ms_def)
  show ?thesis
    using bounds_both_or_neither [OF init_Inr_projr [OF ok]] range_cfg_simps(2)
    by (simp add: range_cfg_def)
qed

text \<open>
  A single partition whose name has no hyphen, hence no date, gets exactly one SubQuery: the
  full query of the partition, with the closed global range as its condition when a range
  is set.
\<close>

theorem dateless_partition_full_query:
  "CHR ''-'' \<notin> set ind \<Longrightarrow> indexes cfg = [ind] \<Longrightarrow>
   \<exists>q. prepare_queries sh cfg d tf = Inr [q] \<and> sq_index q = ind
       \<and> cf_name (sq_file q) = FullFile
       \<and> sq_clause q = (if has_range cfg then Regular (the (gte cfg)) (the (lte cfg)) True
                         else NoClause)"
  by (simp add: prepare_queries_def handle_index_without_date_def Let_def split: option.splits)

theorem dateless_partition_full_query_witness:
  "\<exists>q. prepare_queries keep_order (plain_cfg \<lparr> indexes := [''accounts''] \<rparr>) ''cache'' ''timestamp''
          = Inr [q]
       \<and> sq_index q = ''accounts'' \<and> cf_name (sq_file q) = FullFile \<and> sq_clause q = NoClause"
  using dateless_partition_full_query [of "''accounts''" "plain_cfg \<lparr> indexes := [''accounts''] \<rparr>"
      keep_order "''cache''" "''timestamp''"]
  by (simp add: has_range_def plain_cfg_simps)



lemma teardown_filter_log_event:
  "filter is_teardown_event (rs_trace (log_event e st))
     = filter is_teardown_event (rs_trace st) @ (if is_teardown_event e then [e] else [])"
  by simp

lemma process_single_query_exit:
  "process_single_query cfg b q st = Os_exit st' \<Longrightarrow>
   \<not> ignore_exceptions cfg \<and> (\<exists>e. b q = Inl e) \<and> st' = log_event (Backend_call q) st"
  by (auto simp: process_single_query_def Let_def split: sum.splits if_splits)

lemma process_single_query_done_teardown:
  "process_single_query cfg b q st = Worker_done r st' \<Longrightarrow>
   filter is_teardown_event (rs_trace st') = filter is_teardown_event (rs_trace st)"
  by (auto simp: process_single_query_def Let_def is_teardown_event_def split: sum.splits if_splits)

lemma executor_map_exit:
  "executor_map cfg b qs st = Pool_exit st' \<Longrightarrow>
   \<not> ignore_exceptions cfg \<and> (\<exists>q\<in>set qs. \<exists>e. b q = Inl e)
   \<and> filter is_teardown_event (rs_trace st') = filter is_teardown_event (rs_trace st)"
proof (induction qs arbitrary: st)
  case Nil
  then show ?case by simp
next
  case (Cons q qs)
  show ?case
  proof (cases "process_single_query cfg b q st")
    case (Os_exit s)
    with Cons.prems have "st' = s" by simp
    with process_single_query_exit [OF Os_exit] show ?thesis
      by (auto simp: is_teardown_event_def)
  next
    case (Worker_done r s)
    with Cons.prems have "executor_map cfg b qs s = Pool_exit st'"
      by (simp split: pool_result.splits)
    from Cons.IH [OF this] process_single_query_done_teardown [OF Worker_done]
    show ?thesis by auto
  qed
qed

lemma try_block_exit:
  "try_block cfg b n qs st = (Exited code, st') \<Longrightarrow>
   code = 1 \<and> \<not> ignore_exceptions cfg \<and> (\<exists>q\<in>set qs. \<exists>e. b q = Inl e)
   \<and> filter is_teardown_event (rs_trace st') = filter is_teardown_event (rs_trace st)"
  using executor_map_exit [of cfg b qs st]
  by (auto simp: try_block_def Let_def aggregate_data_to_variable_def
      split: if_splits pool_result.splits)

lemma before_try_teardown:
  "filter is_teardown_event (rs_trace (before_try cfg st)) = filter is_teardown_event (rs_trace st)"
  by (simp add: before_try_def create_cache_dir_def Let_def is_teardown_event_def)

lemma before_try_dirs: "cache_dir_path cfg \<in> set (rs_dirs (before_try cfg st))"
  by (simp add: before_try_def create_cache_dir_def Let_def)

text \<open>
  The fail-fast abort. When \<^verbatim>\<open>download_data_parallel\<close> ends by \<^verbatim>\<open>os._exit\<close>, the exit code is 1,
  \<^verbatim>\<open>ignore_exceptions\<close> is not set, no call of the teardown has been made, and the cache
  directory is still in place.
\<close>

theorem failfast_skips_teardown:
  assumes "download_data_parallel sh b tf cfg n st0 = (Exited code, st')"
  shows "code = 1 \<and> \<not> ignore_exceptions cfg
       \<and> filter is_teardown_event (rs_trace st') = filter is_teardown_event (rs_trace st0)
       \<and> cache_dir_path cfg \<in> set (rs_dirs st')"
proof -
  have ne: "indexes cfg \<noteq> []"
    using assms by (auto simp: run_unfold split: if_splits)
  obtain qs where qs: "prepare_queries sh cfg (cache_dir_path cfg) tf = Inr qs"
    using assms ne by (cases "prepare_queries sh cfg (cache_dir_path cfg) tf") (auto simp: run_unfold)
  have t: "try_block cfg b n qs (before_try cfg st0) = (Exited code, st')"
    using assms ne qs
    by (cases "try_block cfg b n qs (before_try cfg st0)";
        cases "fst (try_block cfg b n qs (before_try cfg st0))")
      (auto simp: run_unfold)
  have "rs_dirs st' = rs_dirs (before_try cfg st0)"
    using try_block_dirs [of cfg b n qs "before_try cfg st0"] t by simp
  then show ?thesis
    using try_block_exit [OF t] by (simp add: before_try_teardown before_try_dirs)
qed

theorem failfast_skips_teardown_witness:
  "fst (download_data_parallel keep_order backend_fails ''timestamp'' failfast_cfg 10 empty_state)
     = Exited 1
   \<and> \<not> ignore_exceptions failfast_cfg
   \<and> filter is_teardown_event
        (rs_trace (snd (download_data_parallel keep_order backend_fails ''timestamp'' failfast_cfg 10
                          empty_state))) = []
   \<and> cache_dir_path failfast_cfg
       \<in> set (rs_dirs (snd (download_data_parallel keep_order backend_fails ''timestamp''
                                failfast_cfg 10 empty_state)))"
proof -
  have out: "fst (download_data_parallel keep_order backend_fails ''timestamp'' failfast_cfg 10
      empty_state) = Exited 1"
    by (simp add: run_eval failfast_prepare failfast_cfg_simps backend_fails_def window_eval Let_def)
  have run: "download_data_parallel keep_order backend_fails ''timestamp'' failfast_cfg 10 empty_state
      = (Exited 1, snd (download_data_parallel keep_order backend_fails ''timestamp'' failfast_cfg 10
                          empty_state))"
    using out by (metis surjective_pairing)
  show ?thesis
    using failfast_skips_teardown [OF run] out by (simp add: empty_state_def)
qed


end
